theory Spec2Isabelle
  imports Complex_Main
begin

section \<open>Errors and tensors\<close>

text \<open>
  A shallow embedding of \<^verbatim>\<open>uncertainty_estimation/models/hi_vae.py\<close> and of
  \<^verbatim>\<open>src/models/novelty_estimator.py\<close>.

  Floating-point numbers are idealised as reals; the one non-real value the code inspects,
  NaN as the marker of a missing cell, is \<open>None\<close> in a \<open>cell\<close>.  A one-dimensional
  tensor is a list, a two-dimensional tensor (rows are samples) is a list of rows, a
  zero-dimensional tensor is \<open>Scalar\<close>.  Every Python exception is a value of \<open>error\<close>,
  and a function that can raise returns \<open>error + 'a\<close> with \<open>Inl\<close> for the exception.
  Random draws (\<^verbatim>\<open>torch.randn\<close>, the Gumbel noise) are arguments, indexed by row
  and column.

  Two limits of the representation.  A list of rows with no row has no column count, so
  where PyTorch's result on a batch without samples depends on the column count the
  theorems ask for a batch of at least one row.  Where the code would carry on with a NaN
  that it computed (the mean of an empty tensor), the model stops with \<open>NanResult\<close>.
\<close>

datatype error =
    AssertionError string
  | ValueError string
  | IndexError string
  | TypeError string
  | RuntimeError string
  | AttributeError string
  | KeyError string
  | NanResult string

type_synonym vec = "real list"
type_synonym matrix = "real list list"
type_synonym cell = "real option"

datatype tensor = Scalar real | Vector vec

definition bind_err :: "error + 'a \<Rightarrow> ('a \<Rightarrow> error + 'b) \<Rightarrow> error + 'b" where
  "bind_err m f = (case m of Inl e \<Rightarrow> Inl e | Inr v \<Rightarrow> f v)"

definition column :: "'a list list \<Rightarrow> nat \<Rightarrow> 'a list" where
  "column X j = map (\<lambda>row. row ! j) X"

text \<open>\<^verbatim>\<open>X[:, j]\<close>: an index past the last column raises.\<close>

definition select_column :: "matrix \<Rightarrow> nat \<Rightarrow> error + vec" where
  "select_column X j =
     (if \<exists>row\<in>set X. length row \<le> j then Inl (IndexError ''index is out of bounds for dimension 1'')
      else Inr (column X j))"

definition mean_list :: "vec \<Rightarrow> real" where
  "mean_list xs = sum_list xs / real (length xs)"

definition relu :: "real \<Rightarrow> real" where
  "relu x = max x 0"

definition leaky_relu :: "real \<Rightarrow> real" where
  "leaky_relu x = (if 0 \<le> x then x else x / 100)"

text \<open>\<^verbatim>\<open>F.softplus\<close> with its defaults (beta 1, threshold 20).\<close>

definition softplus :: "real \<Rightarrow> real" where
  "softplus x = (if 20 < x then x else ln (1 + exp x))"

definition softmax :: "vec \<Rightarrow> vec" where
  "softmax xs = map (\<lambda>x. exp x / sum_list (map exp xs)) xs"

text \<open>\<^verbatim>\<open>.long()\<close> on a float tensor truncates towards zero.\<close>

definition long :: "real \<Rightarrow> int" where
  "long x = (if 0 \<le> x then \<lfloor>x\<rfloor> else \<lceil>x\<rceil>)"

text \<open>\<^verbatim>\<open>torch.argmax\<close> along a row: the index of the first maximal entry.\<close>

fun argmax :: "vec \<Rightarrow> nat" where
  "argmax [] = 0"
| "argmax [x] = 0"
| "argmax (x # y # ys) = (let j = argmax (y # ys) in if x < (y # ys) ! j then Suc j else 0)"

definition argmax_dim1 :: "matrix \<Rightarrow> error + nat list" where
  "argmax_dim1 X =
     (if \<exists>row\<in>set X. row = [] then Inl (IndexError ''argmax: expected reduction dim 1 to have non-zero size'')
      else Inr (map argmax X))"

definition one_hot_row :: "nat \<Rightarrow> int \<Rightarrow> vec" where
  "one_hot_row k l = map (\<lambda>c. if int c = l then 1 else 0) [0..<k]"

text \<open>
  \<^verbatim>\<open>F.one_hot(labels, num_classes)\<close>; \<open>num_classes = -1\<close> (the default) infers the
  width as the largest label plus one.
\<close>

definition one_hot :: "int list \<Rightarrow> int \<Rightarrow> error + matrix" where
  "one_hot labels num_classes =
     (if labels = [] then
        (if num_classes \<le> 0 then Inl (RuntimeError ''Can not infer total number of classes from empty tensor'')
         else Inr [])
      else if \<exists>l\<in>set labels. l < 0 then Inl (RuntimeError ''Class values must be non-negative.'')
      else if num_classes = - 1 then Inr (map (one_hot_row (nat (Max (set labels) + 1))) labels)
      else if \<exists>l\<in>set labels. num_classes \<le> l then Inl (RuntimeError ''Class values must be smaller than num_classes.'')
      else Inr (map (one_hot_row (nat num_classes)) labels))"

text \<open>\<^verbatim>\<open>torch.cat([A, B], dim=1)\<close> of two matrices.\<close>

definition cat_dim1 :: "matrix \<Rightarrow> matrix \<Rightarrow> error + matrix" where
  "cat_dim1 A B =
     (if length A \<noteq> length B then Inl (RuntimeError ''Sizes of tensors must match except in dimension 1'')
      else Inr (map (\<lambda>(a, b). a @ b) (zip A B)))"

text \<open>
  \<^verbatim>\<open>F.cross_entropy(input, target)\<close> with its defaults: \<open>reduction='mean'\<close>, so the
  result is one number for the whole batch, and \<open>ignore_index=-100\<close>.  A batch in which
  every target is ignored yields NaN.
\<close>

definition cross_entropy :: "matrix \<Rightarrow> int list \<Rightarrow> error + real" where
  "cross_entropy input target =
     (if length input \<noteq> length target then Inl (ValueError ''Expected input batch_size to match target batch_size'')
      else if \<exists>(row, t)\<in>set (zip input target). t \<noteq> - 100 \<and> (t < 0 \<or> int (length row) \<le> t)
        then Inl (IndexError ''Target is out of bounds.'')
      else
        (let kept = filter (\<lambda>(row, t). t \<noteq> - 100) (zip input target)
         in if kept = [] then Inl (NanResult ''cross_entropy of an empty batch'')
            else Inr (mean_list (map (\<lambda>(row, t). ln (sum_list (map exp row)) - row ! nat t) kept))))"

section \<open>Layers\<close>

text \<open>
  \<^verbatim>\<open>nn.Linear(in_features, out_features)\<close>.  The learned parameters are functions of
  the output and input index, so that a layer's shape is exactly what its constructor
  was given.
\<close>

record linear =
  in_features :: nat
  out_features :: nat
  weight :: "nat \<Rightarrow> nat \<Rightarrow> real"
  bias :: "nat \<Rightarrow> real"

type_synonym parameters = "(nat \<Rightarrow> nat \<Rightarrow> real) \<times> (nat \<Rightarrow> real)"

definition Linear :: "nat \<Rightarrow> nat \<Rightarrow> parameters \<Rightarrow> linear" where
  "Linear n_in n_out p = \<lparr>in_features = n_in, out_features = n_out, weight = fst p, bias = snd p\<rparr>"

definition Linear_row :: "linear \<Rightarrow> vec \<Rightarrow> vec" where
  "Linear_row l x =
     map (\<lambda>out. sum_list (map (\<lambda>i. weight l out i * x ! i) [0..<in_features l]) + bias l out)
       [0..<out_features l]"

definition Linear_forward :: "linear \<Rightarrow> matrix \<Rightarrow> error + matrix" where
  "Linear_forward l X =
     (if \<exists>x\<in>set X. length x \<noteq> in_features l then Inl (RuntimeError ''mat1 and mat2 shapes cannot be multiplied'')
      else Inr (map (Linear_row l) X))"

text \<open>\<^verbatim>\<open>nn.Sequential\<close> of \<^verbatim>\<open>nn.Linear\<close>, \<^verbatim>\<open>nn.LeakyReLU\<close> pairs.\<close>

fun Sequential_forward :: "linear list \<Rightarrow> matrix \<Rightarrow> error + matrix" where
  "Sequential_forward [] X = Inr X"
| "Sequential_forward (l # ls) X =
     bind_err (Linear_forward l X) (\<lambda>Y. Sequential_forward ls (map (map leaky_relu) Y))"

text \<open>
  \<^verbatim>\<open>torch.nn.BatchNorm1d(num_features, affine=False)\<close>: \<open>eps = 1e-5\<close>,
  \<open>momentum = 0.1\<close>, running statistics tracked.  The layer is the one piece of mutable
  state of the model; functions that call it take it and return it updated.
\<close>

record batch_norm =
  num_features :: nat
  eps :: real
  momentum :: real
  training :: bool
  running_mean :: vec
  running_var :: vec
  num_batches_tracked :: real

definition BatchNorm1d :: "nat \<Rightarrow> batch_norm" where
  "BatchNorm1d n =
     \<lparr>num_features = n, eps = 1 / 10 ^ 5, momentum = 1 / 10, training = True,
      running_mean = replicate n 0, running_var = replicate n 1, num_batches_tracked = 0\<rparr>"

text \<open>\<^verbatim>\<open>HIEncoder.batch_norm_reset_hook\<close>.\<close>

definition batch_norm_reset_hook :: "batch_norm \<Rightarrow> batch_norm" where
  "batch_norm_reset_hook layer =
     layer\<lparr>num_batches_tracked := 0,
           running_mean := replicate (length (running_mean layer)) 0,
           running_var := replicate (length (running_var layer)) 1\<rparr>"

definition sq_dev :: "vec \<Rightarrow> real" where
  "sq_dev xs = sum_list (map (\<lambda>x. (x - mean_list xs) ^ 2) xs)"

text \<open>
  The layer's own \<^verbatim>\<open>forward\<close>.  In training mode a column is normalised with the
  batch's mean and biased variance, and the running statistics move towards the batch's
  mean and unbiased variance by \<open>momentum\<close>; in evaluation mode the running statistics
  normalise and stay.
\<close>

definition BatchNorm1d_forward :: "batch_norm \<Rightarrow> matrix \<Rightarrow> error + matrix \<times> batch_norm" where
  "BatchNorm1d_forward bn X =
     (let C = length (running_mean bn); n = length X in
      if training bn \<and> n = 1 then Inl (ValueError ''Expected more than 1 value per channel when training'')
      else if (\<exists>row\<in>set X. length row \<noteq> C) \<or> length (running_var bn) \<noteq> C
        then Inl (RuntimeError ''running_mean should contain as many elements as the input has columns'')
      else if training bn then
        Inr (map (\<lambda>row. map (\<lambda>j. (row ! j - mean_list (column X j))
                                     / sqrt (sq_dev (column X j) / real n + eps bn)) [0..<C]) X,
             bn\<lparr>num_batches_tracked := num_batches_tracked bn + 1,
                running_mean := map (\<lambda>j. (1 - momentum bn) * running_mean bn ! j
                                          + momentum bn * mean_list (column X j)) [0..<C],
                running_var := map (\<lambda>j. (1 - momentum bn) * running_var bn ! j
                                         + momentum bn * (sq_dev (column X j) / (real n - 1))) [0..<C]\<rparr>)
      else
        Inr (map (\<lambda>row. map (\<lambda>j. (row ! j - running_mean bn ! j) / sqrt (running_var bn ! j + eps bn))
                           [0..<C]) X,
             bn))"

text \<open>
  Calling the layer: \<^verbatim>\<open>register_forward_pre_hook\<close> makes PyTorch run the hook
  before every \<^verbatim>\<open>forward\<close> of the layer.
\<close>

definition real_batch_norm :: "batch_norm \<Rightarrow> matrix \<Rightarrow> error + matrix \<times> batch_norm" where
  "real_batch_norm bn X = BatchNorm1d_forward (batch_norm_reset_hook bn) X"

section \<open>The encoder\<close>

type_synonym FeatType = "string \<times> int option \<times> int option"
type_synonym FeatTypes = "FeatType list"

definition AVAILABLE_TYPES :: "string set" where
  "AVAILABLE_TYPES = {''real'', ''positive_real'', ''count'', ''categorical'', ''ordinal''}"

text \<open>\<^verbatim>\<open>int(v)\<close> and arithmetic on a bound that may be \<^verbatim>\<open>None\<close>.\<close>

definition int_of :: "int option \<Rightarrow> error + int" where
  "int_of v = (case v of None \<Rightarrow> Inl (TypeError ''int() argument must not be NoneType'') | Some i \<Rightarrow> Inr i)"

definition num_values_of :: "int option \<Rightarrow> int option \<Rightarrow> error + int" where
  "num_values_of feat_min feat_max =
     (case (feat_max, feat_min) of
        (Some hi, Some lo) \<Rightarrow> Inr (hi - lo + 1)
      | _ \<Rightarrow> Inl (TypeError ''unsupported operand type(s) for -: NoneType''))"

text \<open>\<^verbatim>\<open>HIEncoder.get_encoded_input_size\<close>.\<close>

fun get_encoded_input_size_from :: "int \<Rightarrow> FeatTypes \<Rightarrow> error + int" where
  "get_encoded_input_size_from input_size [] = Inr input_size"
| "get_encoded_input_size_from input_size ((feat_type, feat_min, feat_max) # rest) =
     (if feat_type = ''categorical'' then
        bind_err (int_of feat_max) (\<lambda>m. get_encoded_input_size_from (input_size + (m + 1)) rest)
      else if feat_type = ''ordinal'' then
        bind_err (num_values_of feat_min feat_max) (\<lambda>k. get_encoded_input_size_from (input_size + k) rest)
      else get_encoded_input_size_from (input_size + 1) rest)"

definition get_encoded_input_size :: "FeatTypes \<Rightarrow> error + int" where
  "get_encoded_input_size feat_types = get_encoded_input_size_from 0 feat_types"

text \<open>
  \<^verbatim>\<open>HIEncoder.categorical_encode\<close>: the loop over the features, with the matrix
  encoded so far as accumulator (it starts as \<^verbatim>\<open>torch.empty(n, 0)\<close>).
\<close>

definition thermometer_row :: "nat \<Rightarrow> real \<Rightarrow> vec" where
  "thermometer_row num_values v = map (\<lambda>k. if real k \<le> v then 1 else 0) [0..<num_values]"

definition encode_feature :: "FeatType \<Rightarrow> nat \<Rightarrow> matrix \<Rightarrow> error + matrix" where
  "encode_feature ft dim' input_tensor =
     (case ft of (feat_type, feat_min, feat_max) \<Rightarrow>
        if feat_type = ''categorical'' then
          bind_err (int_of feat_max) (\<lambda>m.
          bind_err (select_column input_tensor dim') (\<lambda>col.
            one_hot (map long col) (m + 1)))
        else if feat_type = ''ordinal'' then
          bind_err (num_values_of feat_min feat_max) (\<lambda>num_values.
            if num_values < 0 then Inl (RuntimeError ''arange: upper bound and lower bound inconsistent with step sign'')
            else if input_tensor = [] then Inl (RuntimeError ''torch.cat(): expected a non-empty list of Tensors'')
            else bind_err (select_column input_tensor dim') (\<lambda>col.
              Inr (map (thermometer_row (nat num_values)) col)))
        else
          bind_err (select_column input_tensor dim') (\<lambda>col. Inr (map (\<lambda>v. [v]) col)))"

fun categorical_encode_from :: "FeatTypes \<Rightarrow> nat \<Rightarrow> matrix \<Rightarrow> matrix \<Rightarrow> error + matrix" where
  "categorical_encode_from [] dim' input_tensor encoded_input_tensor = Inr encoded_input_tensor"
| "categorical_encode_from (ft # rest) dim' input_tensor encoded_input_tensor =
     bind_err (encode_feature ft dim' input_tensor) (\<lambda>encoding.
     bind_err (cat_dim1 encoded_input_tensor encoding) (\<lambda>encoded_input_tensor'.
       categorical_encode_from rest (Suc dim') input_tensor encoded_input_tensor'))"

definition categorical_encode :: "FeatTypes \<Rightarrow> matrix \<Rightarrow> error + matrix" where
  "categorical_encode feat_types input_tensor =
     categorical_encode_from feat_types 0 input_tensor (map (\<lambda>row. []) input_tensor)"

text \<open>
  \<^verbatim>\<open>HIEncoder.normalize\<close>.  The function writes into the tensor it is given
  (\<^verbatim>\<open>input_tensor[~observed_mask] = 0\<close> and the assignment of the log transform) and
  returns a new tensor from the batch-norm layer; the model returns both: the result
  \<open>(normed_input, observed_mask)\<close>, the argument's content after the call, and the
  layer.
\<close>

definition zero_fill :: "cell \<Rightarrow> real" where
  "zero_fill c = (case c of None \<Rightarrow> 0 | Some v \<Rightarrow> v)"

definition log_transform :: "real \<Rightarrow> real" where
  "log_transform v = ln (relu v + 1 / 10 ^ 8)"

definition normalize ::
  "FeatTypes \<Rightarrow> batch_norm \<Rightarrow> cell list list
    \<Rightarrow> error + (matrix \<times> bool list list) \<times> cell list list \<times> batch_norm" where
  "normalize feat_types bn input_tensor =
     (if feat_types = [] then Inl (IndexError ''list index out of range'')
      else
        (let only_types = map fst feat_types;
             observed_mask = map (map (\<lambda>c. c \<noteq> None)) input_tensor;
             filled = map (map zero_fill) input_tensor;
             log_transform_mask = map (\<lambda>feat_type. feat_type \<in> {''positive_real'', ''count''}) only_types
         in if \<exists>row\<in>set filled. length row \<noteq> length log_transform_mask
              then Inl (IndexError ''The shape of the mask does not match the shape of the indexed tensor'')
            else
              (let logged = map (\<lambda>row. map (\<lambda>(b, v). if b then log_transform v else v)
                                          (zip log_transform_mask row)) filled;
                   real_mask = map (\<lambda>feat_type. feat_type \<notin> {''real'', ''positive_real''}) only_types
               in bind_err (real_batch_norm bn logged) (\<lambda>(normed_input, bn').
                    Inr ((map (\<lambda>(normed_row, row). map (\<lambda>(b, y, v). if b then v else y)
                                                     (zip real_mask (zip normed_row row)))
                            (zip normed_input logged),
                          observed_mask),
                         map (map Some) logged, bn')))))"

text \<open>
  The encoder's layers.  \<open>real_batch_norm\<close> is the mutable \<open>batch_norm\<close> that is passed
  along instead of being a field.
\<close>

record HIEncoder =
  n_mix_components :: nat
  feat_types :: FeatTypes
  encoded_input_size :: nat
  mixture_model :: linear
  hidden :: "linear list"
  mean :: linear
  var :: linear
  p_mean :: linear
  p_var :: linear

text \<open>
  \<^verbatim>\<open>HIEncoder.__init__\<close>.  \<open>\<theta>\<close> gives every layer its parameters (by attribute
  name, and by position for the hidden stack); training changes \<open>\<theta>\<close> and nothing else
  of the encoder.
\<close>

definition hidden_layers :: "nat list \<Rightarrow> (nat \<Rightarrow> parameters) \<Rightarrow> linear list" where
  "hidden_layers architecture p =
     map (\<lambda>(l, (in_dim, out_dim)). Linear in_dim out_dim (p l))
       (enumerate 0 (zip (butlast architecture) (tl architecture)))"

definition HIEncoder_init ::
  "nat list \<Rightarrow> nat \<Rightarrow> nat \<Rightarrow> FeatTypes \<Rightarrow> (string \<Rightarrow> nat \<Rightarrow> parameters)
    \<Rightarrow> error + HIEncoder \<times> batch_norm" where
  "HIEncoder_init hidden_sizes latent_dim n_mix fts \<theta> =
     (if fts = [] then Inl (IndexError ''list index out of range'')
      else if set (map fst fts) \<inter> AVAILABLE_TYPES \<noteq> set (map fst fts)
        then Inl (AssertionError ''Unknown feature type declared. Must be in [real, positive_real, count, categorical, ordinal].'')
      else bind_err (get_encoded_input_size fts) (\<lambda>size.
        if size < 0 then Inl (RuntimeError ''Trying to create tensor with negative dimension'')
        else
          (let architecture = nat size # hidden_sizes in
           Inr (\<lparr>n_mix_components = n_mix, feat_types = fts, encoded_input_size = nat size,
                 mixture_model = Linear (nat size) n_mix (\<theta> ''mixture_model'' 0),
                 hidden = hidden_layers architecture (\<theta> ''hidden''),
                 mean = Linear (last architecture + n_mix) latent_dim (\<theta> ''mean'' 0),
                 var = Linear (last architecture + n_mix) latent_dim (\<theta> ''var'' 0),
                 p_mean = Linear n_mix latent_dim (\<theta> ''p_mean'' 0),
                 p_var = Linear n_mix latent_dim (\<theta> ''p_var'' 0)\<rparr>,
                BatchNorm1d (length fts)))))"

text \<open>
  \<^verbatim>\<open>F.gumbel_softmax(pi, dim=1)\<close> with its defaults (\<open>tau = 1\<close>, soft samples);
  \<open>gumbels i c\<close> is the noise drawn for sample \<open>i\<close> and component \<open>c\<close>.
\<close>

definition gumbel_softmax :: "(nat \<Rightarrow> nat \<Rightarrow> real) \<Rightarrow> matrix \<Rightarrow> matrix" where
  "gumbel_softmax gumbels logits =
     map (\<lambda>(i, row). softmax (map (\<lambda>(c, x). (x + gumbels i c) / 1) (enumerate 0 row)))
       (enumerate 0 logits)"

definition sample_mix_components :: "HIEncoder \<Rightarrow> (nat \<Rightarrow> nat \<Rightarrow> real) \<Rightarrow> matrix \<Rightarrow> error + matrix" where
  "sample_mix_components enc gumbels input_tensor =
     bind_err (Linear_forward (mixture_model enc) input_tensor) (\<lambda>pi_logits.
       Inr (gumbel_softmax gumbels pi_logits))"

text \<open>
  \<^verbatim>\<open>HIEncoder.forward\<close>, in two parts: the lines up to the draw of the mixture
  distributions (211 to 214), and the rest, which builds the one-hot without
  \<^verbatim>\<open>num_classes\<close>.  The result is the tuple
  \<open>(mean, std, mix_component_dists, observed_mask)\<close>, with the content of the argument
  after the call and the batch-norm layer.
\<close>

definition HIEncoder_mix_component_dists ::
  "HIEncoder \<Rightarrow> batch_norm \<Rightarrow> (nat \<Rightarrow> nat \<Rightarrow> real) \<Rightarrow> cell list list
    \<Rightarrow> error + (matrix \<times> matrix \<times> bool list list) \<times> cell list list \<times> batch_norm" where
  "HIEncoder_mix_component_dists enc bn gumbels input_tensor =
     bind_err (normalize (feat_types enc) bn input_tensor) (\<lambda>((normed, observed_mask), input_after, bn').
     bind_err (categorical_encode (feat_types enc) normed) (\<lambda>encoded.
     bind_err (sample_mix_components enc gumbels encoded) (\<lambda>mix_component_dists.
       Inr ((encoded, mix_component_dists, observed_mask), input_after, bn'))))"

definition HIEncoder_heads ::
  "HIEncoder \<Rightarrow> matrix \<Rightarrow> matrix \<Rightarrow> error + matrix \<times> matrix" where
  "HIEncoder_heads enc encoded mix_component_dists =
     bind_err (argmax_dim1 mix_component_dists) (\<lambda>idx.
     bind_err (one_hot (map int idx) (- 1)) (\<lambda>mix_components.
     bind_err (Sequential_forward (hidden enc) encoded) (\<lambda>h.
     bind_err (cat_dim1 h mix_components) (\<lambda>h'.
     bind_err (Linear_forward (mean enc) h') (\<lambda>mean_t.
     bind_err (Linear_forward (var enc) h') (\<lambda>var_t.
       Inr (mean_t, map (map (\<lambda>v. sqrt (softplus v))) var_t)))))))"

definition HIEncoder_forward ::
  "HIEncoder \<Rightarrow> batch_norm \<Rightarrow> (nat \<Rightarrow> nat \<Rightarrow> real) \<Rightarrow> cell list list
    \<Rightarrow> error + (matrix \<times> matrix \<times> matrix \<times> bool list list) \<times> cell list list \<times> batch_norm" where
  "HIEncoder_forward enc bn gumbels input_tensor =
     bind_err (HIEncoder_mix_component_dists enc bn gumbels input_tensor)
       (\<lambda>((encoded, mix_component_dists, observed_mask), input_after, bn').
     bind_err (HIEncoder_heads enc encoded mix_component_dists) (\<lambda>(mean_t, std_t).
       Inr ((mean_t, std_t, mix_component_dists, observed_mask), input_after, bn')))"

section \<open>The decoders\<close>

text \<open>
  The five \<^verbatim>\<open>VarDecoder\<close> subclasses, each with its \<^verbatim>\<open>feat_type\<close> and its
  output heads (\<open>mean\<close> and \<open>var\<close>; \<open>lambda_\<close>; \<open>linear\<close>; \<open>thresholds\<close> and \<open>region\<close>).
\<close>

datatype VarDecoder =
    NormalDecoder FeatType linear linear
  | LogNormalDecoder FeatType linear linear
  | PoissonDecoder FeatType linear
  | CategoricalDecoder FeatType linear
  | OrdinalDecoder FeatType linear linear

text \<open>Elementwise arithmetic on two one-dimensional tensors, with PyTorch's broadcasting.\<close>

definition broadcast2 :: "('a \<Rightarrow> 'b \<Rightarrow> 'c) \<Rightarrow> 'a list \<Rightarrow> 'b list \<Rightarrow> error + 'c list" where
  "broadcast2 f xs ys =
     (if length xs = length ys then Inr (map (\<lambda>(x, y). f x y) (zip xs ys))
      else if length xs = 1 then Inr (map (f (xs ! 0)) ys)
      else if length ys = 1 then Inr (map (\<lambda>x. f x (ys ! 0)) xs)
      else Inl (RuntimeError ''The size of tensor a must match the size of tensor b''))"

fun map_err :: "('a \<Rightarrow> error + 'b) \<Rightarrow> 'a list \<Rightarrow> error + 'b list" where
  "map_err f [] = Inr []"
| "map_err f (x # xs) = bind_err (f x) (\<lambda>y. bind_err (map_err f xs) (\<lambda>ys. Inr (y # ys)))"

definition mean_tensor :: "vec \<Rightarrow> error + real" where
  "mean_tensor xs = (if xs = [] then Inl (NanResult ''mean of an empty tensor'') else Inr (mean_list xs))"

definition normal_log_prob :: "real \<Rightarrow> real \<Rightarrow> real \<Rightarrow> real" where
  "normal_log_prob loc scale v = - ((v - loc) ^ 2) / (2 * scale ^ 2) - ln scale - ln (sqrt (2 * pi))"

text \<open>
  \<^verbatim>\<open>NormalDecoder.reconstruction_error\<close> (inherited by \<^verbatim>\<open>LogNormalDecoder\<close>).
  \<open>mean\<close> and \<open>std\<close> have shape \<open>(n, 1)\<close> and the input has shape \<open>(n)\<close>, so
  \<^verbatim>\<open>log_prob\<close> broadcasts to \<open>(n, n)\<close> and \<^verbatim>\<open>Independent(..., 1)\<close> sums each row.
\<close>

definition Normal_reconstruction_error ::
  "batch_norm \<Rightarrow> linear \<Rightarrow> linear \<Rightarrow> vec \<Rightarrow> matrix \<Rightarrow> nat \<Rightarrow> error + tensor" where
  "Normal_reconstruction_error encoder_sb mean_l var_l input_tensor hidden_t dim' =
     (if length (running_var encoder_sb) \<le> dim' \<or> length (running_mean encoder_sb) \<le> dim'
        then Inl (IndexError ''index out of range'')
      else
        (let r_std = sqrt (running_var encoder_sb ! dim');
             r_mean = running_mean encoder_sb ! dim'
         in bind_err (Linear_forward mean_l hidden_t) (\<lambda>mean0.
            bind_err (Linear_forward var_l hidden_t) (\<lambda>var0.
              (let mean_t = map (map (\<lambda>m. m * r_std + r_mean)) mean0;
                   std_t = map (map (\<lambda>v. sqrt (softplus v) * r_std)) var0;
                   input' = map (\<lambda>x. x * r_std + r_mean) input_tensor
               in if \<exists>row\<in>set std_t. \<exists>s\<in>set row. s \<le> 0
                    then Inl (ValueError ''Expected parameter scale of distribution Normal to be positive'')
                  else bind_err
                    (map_err (\<lambda>(mrow, srow).
                       bind_err (broadcast2 (\<lambda>(m, s) x. normal_log_prob m s x) (zip mrow srow) input')
                         (\<lambda>lp. Inr (- sum_list lp)))
                       (zip mean_t std_t))
                    (\<lambda>errs. Inr (Vector errs)))))))"

text \<open>
  \<^verbatim>\<open>PoissonDecoder.reconstruction_error\<close>.  \<^verbatim>\<open>F.poisson_nll_loss(input, target)\<close>
  with its defaults (\<open>log_input=True\<close>, \<open>reduction='mean'\<close>) is the mean of
  \<open>exp(input) - target * input\<close>; the call passes the data as \<open>input\<close> and the
  truncated rate as \<open>target\<close>.
\<close>

definition Poisson_reconstruction_error :: "linear \<Rightarrow> vec \<Rightarrow> matrix \<Rightarrow> error + tensor" where
  "Poisson_reconstruction_error lambda_l input_tensor hidden_t =
     bind_err (Linear_forward lambda_l hidden_t) (\<lambda>rate.
       (let lambda_t = concat (map (map (\<lambda>v. real_of_int (long (softplus v)))) rate) in
        bind_err (broadcast2 (\<lambda>x lam. exp x - lam * x) input_tensor lambda_t) (\<lambda>loss.
        bind_err (mean_tensor loss) (\<lambda>err. Inr (Scalar err)))))"

text \<open>\<^verbatim>\<open>CategoricalDecoder.reconstruction_error\<close>.\<close>

definition Categorical_reconstruction_error :: "linear \<Rightarrow> vec \<Rightarrow> matrix \<Rightarrow> error + tensor" where
  "Categorical_reconstruction_error linear_l input_tensor hidden_t =
     bind_err (Linear_forward linear_l hidden_t) (\<lambda>dists.
     bind_err (cross_entropy (map softmax dists) (map long input_tensor)) (\<lambda>ce.
       Inr (Scalar (- ce))))"

text \<open>\<^verbatim>\<open>OrdinalDecoder.get_ordinal_probs\<close> and \<^verbatim>\<open>reconstruction_error\<close>.\<close>

fun cumsum_from :: "real \<Rightarrow> vec \<Rightarrow> vec" where
  "cumsum_from acc [] = []"
| "cumsum_from acc (x # xs) = (acc + x) # cumsum_from (acc + x) xs"

definition cumsum :: "vec \<Rightarrow> vec" where
  "cumsum xs = cumsum_from 0 xs"

definition roll1 :: "vec \<Rightarrow> vec" where
  "roll1 xs = (if xs = [] then [] else last xs # butlast xs)"

definition get_ordinal_probs :: "linear \<Rightarrow> linear \<Rightarrow> matrix \<Rightarrow> error + matrix" where
  "get_ordinal_probs thresholds_l region_l hidden_t =
     bind_err (Linear_forward region_l hidden_t) (\<lambda>region0.
     bind_err (Linear_forward thresholds_l hidden_t) (\<lambda>thresholds0.
       (let region = map (map softplus) region0;
            thresholds = map (\<lambda>row. cumsum (map softplus row)) thresholds0
        in bind_err (map_err (\<lambda>(trow, rrow). broadcast2 (\<lambda>t r. 1 / (1 + exp (- (t - r)))) trow rrow)
                       (zip thresholds region)) (\<lambda>threshold_probs.
           if \<exists>row\<in>set threshold_probs. row = []
             then Inl (IndexError ''index 0 is out of bounds for dimension 1 with size 0'')
           else Inr (map (\<lambda>tp. softmax (map (\<lambda>(p, c). p - c) (zip tp ((roll1 tp)[0 := 0]))))
                       threshold_probs)))))"

definition Ordinal_reconstruction_error ::
  "FeatType \<Rightarrow> linear \<Rightarrow> linear \<Rightarrow> vec \<Rightarrow> matrix \<Rightarrow> error + tensor" where
  "Ordinal_reconstruction_error feat_type thresholds_l region_l input_tensor hidden_t =
     (case fst (snd feat_type) of
        None \<Rightarrow> Inl (TypeError ''> not supported between instances of NoneType and int'')
      | Some feat_min \<Rightarrow>
          (let input' =
                 (if 0 < feat_min
                  then map (\<lambda>x. (if x = 0 then real_of_int feat_min else x) - real_of_int feat_min) input_tensor
                  else input_tensor)
           in bind_err (get_ordinal_probs thresholds_l region_l hidden_t) (\<lambda>ordinal_probs.
              bind_err (cross_entropy ordinal_probs (map long input')) (\<lambda>ce.
                Inr (Scalar (- ce))))))"

text \<open>The method \<^verbatim>\<open>reconstruction_error\<close>, by the class of the decoder.\<close>

fun reconstruction_error :: "batch_norm \<Rightarrow> VarDecoder \<Rightarrow> vec \<Rightarrow> matrix \<Rightarrow> nat \<Rightarrow> error + tensor" where
  "reconstruction_error encoder_sb (NormalDecoder ft mean_l var_l) x h dim' =
     Normal_reconstruction_error encoder_sb mean_l var_l x h dim'"
| "reconstruction_error encoder_sb (LogNormalDecoder ft mean_l var_l) x h dim' =
     Normal_reconstruction_error encoder_sb mean_l var_l x h dim'"
| "reconstruction_error encoder_sb (PoissonDecoder ft lambda_l) x h dim' =
     Poisson_reconstruction_error lambda_l x h"
| "reconstruction_error encoder_sb (CategoricalDecoder ft linear_l) x h dim' =
     Categorical_reconstruction_error linear_l x h"
| "reconstruction_error encoder_sb (OrdinalDecoder ft thresholds_l region_l) x h dim' =
     Ordinal_reconstruction_error ft thresholds_l region_l x h"

text \<open>The constructors, as \<^verbatim>\<open>HIDecoder.__init__\<close> picks them by the feature's type.\<close>

definition out_dim_of :: "int \<Rightarrow> error + nat" where
  "out_dim_of k = (if k < 0 then Inl (RuntimeError ''Trying to create tensor with negative dimension'') else Inr (nat k))"

definition VarDecoder_init :: "nat \<Rightarrow> (nat \<Rightarrow> string \<Rightarrow> parameters) \<Rightarrow> nat \<times> FeatType \<Rightarrow> error + VarDecoder" where
  "VarDecoder_init hidden_size p nft =
     (case nft of (j, feat_type) \<Rightarrow>
        if fst feat_type = ''real'' then
          Inr (NormalDecoder feat_type (Linear hidden_size 1 (p j ''mean'')) (Linear hidden_size 1 (p j ''var'')))
        else if fst feat_type = ''positive_real'' then
          Inr (LogNormalDecoder feat_type (Linear hidden_size 1 (p j ''mean'')) (Linear hidden_size 1 (p j ''var'')))
        else if fst feat_type = ''count'' then
          Inr (PoissonDecoder feat_type (Linear hidden_size 1 (p j ''lambda_'')))
        else if fst feat_type = ''categorical'' then
          bind_err (int_of (snd (snd feat_type))) (\<lambda>m.
          bind_err (out_dim_of (m + 1)) (\<lambda>k.
            Inr (CategoricalDecoder feat_type (Linear hidden_size k (p j ''linear'')))))
        else if fst feat_type = ''ordinal'' then
          bind_err (num_values_of (fst (snd feat_type)) (snd (snd feat_type))) (\<lambda>m.
          bind_err (out_dim_of m) (\<lambda>k.
            Inr (OrdinalDecoder feat_type (Linear hidden_size k (p j ''thresholds''))
                   (Linear hidden_size 1 (p j ''region'')))))
        else Inl (KeyError (fst feat_type)))"

record HIDecoder =
  dec_feat_types :: FeatTypes
  dec_n_mix_components :: nat
  dec_hidden :: "linear list"
  decoding_models :: "VarDecoder list"

definition HIDecoder_init ::
  "nat list \<Rightarrow> nat \<Rightarrow> nat \<Rightarrow> FeatTypes \<Rightarrow> (nat \<Rightarrow> parameters) \<Rightarrow> (nat \<Rightarrow> string \<Rightarrow> parameters)
    \<Rightarrow> error + HIDecoder" where
  "HIDecoder_init hidden_sizes latent_dim n_mix fts p_hidden p_heads =
     (let architecture = latent_dim # hidden_sizes in
      bind_err (map_err (VarDecoder_init (last architecture + n_mix) p_heads) (enumerate 0 fts)) (\<lambda>models.
        Inr \<lparr>dec_feat_types = fts, dec_n_mix_components = n_mix,
             dec_hidden = hidden_layers architecture p_hidden, decoding_models = models\<rparr>))"

text \<open>
  \<^verbatim>\<open>HIDecoder.reconstruction_error\<close>: the loop that writes each decoder's result into
  its column of \<open>reconstruction_loss\<close> (a zero-dimensional result fills the whole
  column), the masking, and the sum over the features.
\<close>

definition assign_column :: "matrix \<Rightarrow> nat \<Rightarrow> tensor \<Rightarrow> error + matrix" where
  "assign_column M j t =
     (case t of
        Scalar v \<Rightarrow> Inr (map (\<lambda>row. row[j := v]) M)
      | Vector vs \<Rightarrow>
          if length vs = length M then Inr (map (\<lambda>(row, v). row[j := v]) (zip M vs))
          else if length vs = 1 then Inr (map (\<lambda>row. row[j := vs ! 0]) M)
          else Inl (RuntimeError ''shape mismatch: value tensor cannot be broadcast to indexing result''))"

fun reconstruction_loss_from ::
  "VarDecoder list \<Rightarrow> nat \<Rightarrow> batch_norm \<Rightarrow> matrix \<Rightarrow> matrix \<Rightarrow> matrix \<Rightarrow> error + matrix" where
  "reconstruction_loss_from [] feat_num encoder_bn input_tensor h reconstruction_loss = Inr reconstruction_loss"
| "reconstruction_loss_from (decoding_model # rest) feat_num encoder_bn input_tensor h reconstruction_loss =
     bind_err (select_column input_tensor feat_num) (\<lambda>col.
     bind_err (reconstruction_error encoder_bn decoding_model col h feat_num) (\<lambda>err.
     bind_err (assign_column reconstruction_loss feat_num err) (\<lambda>reconstruction_loss'.
       reconstruction_loss_from rest (Suc feat_num) encoder_bn input_tensor h reconstruction_loss')))"

definition mask_unobserved :: "matrix \<Rightarrow> bool list list \<Rightarrow> error + matrix" where
  "mask_unobserved reconstruction_loss observed_mask =
     (if map length reconstruction_loss \<noteq> map length observed_mask
        then Inl (IndexError ''The shape of the mask does not match the shape of the indexed tensor'')
      else Inr (map (\<lambda>(lrow, mrow). map (\<lambda>(l, observed). if \<not> observed then 0 else l) (zip lrow mrow))
                  (zip reconstruction_loss observed_mask)))"

definition HIDecoder_reconstruction_error ::
  "HIDecoder \<Rightarrow> batch_norm \<Rightarrow> matrix \<Rightarrow> matrix \<Rightarrow> matrix \<Rightarrow> bool list list \<Rightarrow> error + vec" where
  "HIDecoder_reconstruction_error dec encoder_bn input_tensor latent_tensor mix_components observed_mask =
     bind_err (Sequential_forward (dec_hidden dec) latent_tensor) (\<lambda>h.
     bind_err (cat_dim1 h mix_components) (\<lambda>h'.
     bind_err (reconstruction_loss_from (decoding_models dec) 0 encoder_bn input_tensor h'
                 (map (map (\<lambda>x. 0)) input_tensor)) (\<lambda>reconstruction_loss.
     bind_err (mask_unobserved reconstruction_loss observed_mask) (\<lambda>masked.
       Inr (map sum_list masked)))))"

section \<open>The full model\<close>

record HIVAEModule =
  latent_dim :: nat
  module_n_mix_components :: nat
  encoder :: HIEncoder
  decoder :: HIDecoder

definition HIVAEModule_init ::
  "nat list \<Rightarrow> nat \<Rightarrow> nat \<Rightarrow> FeatTypes \<Rightarrow> (string \<Rightarrow> nat \<Rightarrow> parameters) \<Rightarrow> (nat \<Rightarrow> string \<Rightarrow> parameters)
    \<Rightarrow> error + HIVAEModule \<times> batch_norm" where
  "HIVAEModule_init hidden_sizes ld n_mix fts \<theta> p_heads =
     bind_err (HIEncoder_init hidden_sizes ld n_mix fts \<theta>) (\<lambda>(enc, bn).
     bind_err (HIDecoder_init hidden_sizes ld n_mix fts (\<theta> ''decoder.hidden'') p_heads) (\<lambda>dec.
       Inr (\<lparr>latent_dim = ld, module_n_mix_components = n_mix, encoder = enc, decoder = dec\<rparr>, bn)))"

text \<open>
  The latent KL term of \<^verbatim>\<open>HIVAEModule.forward\<close> (lines 643 to 654), for one sample
  and for the batch.
\<close>

definition kl_row :: "nat \<Rightarrow> vec \<Rightarrow> vec \<Rightarrow> vec \<Rightarrow> vec \<Rightarrow> real" where
  "kl_row ld mean_v std_v p_mean_v p_var_v =
     (let log_p_var = map ln p_var_v;
          log_var = map (\<lambda>s. ln (s ^ 2)) std_v
      in 0.5 * real ld
         + 0.5 * sum_list (map (\<lambda>(lv, lpv, pm, m, pv). exp (lv - lpv) + (pm - m) ^ 2 / pv - lv + lpv)
                             (zip log_var (zip log_p_var (zip p_mean_v (zip mean_v p_var_v))))))"

definition latent_kl :: "nat \<Rightarrow> matrix \<Rightarrow> matrix \<Rightarrow> matrix \<Rightarrow> matrix \<Rightarrow> vec" where
  "latent_kl ld mean_t std_t p_mean_t p_var_t =
     map (\<lambda>(m, s, pm, pv). kl_row ld m s pm pv) (zip mean_t (zip std_t (zip p_mean_t p_var_t)))"

text \<open>
  \<^verbatim>\<open>input_tensor.float()\<close> returns the tensor itself when it already holds 32-bit
  floats, and a copy otherwise; only in the first case does the caller see what
  \<^verbatim>\<open>normalize\<close> writes.
\<close>

datatype dtype = Float32 | Float64

text \<open>
  \<^verbatim>\<open>HIVAEModule.forward\<close>.  \<open>forward_reconstruction_input\<close> is its first half, up
  to the second call of \<^verbatim>\<open>normalize\<close> (line 636): it yields the encoder's outputs,
  the latent sample, the one-hot, and the tensor that is then handed to
  \<^verbatim>\<open>decoder.reconstruction_error\<close>.  The result of \<open>HIVAEModule_forward\<close> is
  \<open>(reconstr_error, kl, average_negative_elbo)\<close> with the content of the caller's tensor
  after the call and the batch-norm layer.
\<close>

definition forward_reconstruction_input ::
  "HIVAEModule \<Rightarrow> batch_norm \<Rightarrow> (nat \<Rightarrow> nat \<Rightarrow> real) \<Rightarrow> (nat \<Rightarrow> nat \<Rightarrow> real) \<Rightarrow> cell list list
    \<Rightarrow> error + (matrix \<times> matrix \<times> matrix \<times> bool list list) \<times> (matrix \<times> matrix \<times> matrix)
                \<times> cell list list \<times> batch_norm" where
  "forward_reconstruction_input m bn gumbels noise input_tensor =
     bind_err (HIEncoder_forward (encoder m) bn gumbels input_tensor)
       (\<lambda>((mean_t, std_t, mix_components_dists, observed_mask), input_after, bn1).
       (let latent_tensor =
              map (\<lambda>(i, (mrow, srow)). map (\<lambda>(k, (mu, sd)). mu + noise i k * sd) (enumerate 0 (zip mrow srow)))
                (enumerate 0 (zip mean_t std_t))
        in bind_err (argmax_dim1 mix_components_dists) (\<lambda>idx.
           bind_err (one_hot (map int idx) (- 1)) (\<lambda>mix_components.
           bind_err (normalize (feat_types (encoder m)) bn1 input_after) (\<lambda>((normed, unused), input_after', bn2).
             Inr ((mean_t, std_t, mix_components_dists, observed_mask),
                  (latent_tensor, mix_components, normed), input_after', bn2))))))"

definition HIVAEModule_forward ::
  "HIVAEModule \<Rightarrow> batch_norm \<Rightarrow> (nat \<Rightarrow> nat \<Rightarrow> real) \<Rightarrow> (nat \<Rightarrow> nat \<Rightarrow> real) \<Rightarrow> dtype \<Rightarrow> cell list list
    \<Rightarrow> real \<Rightarrow> string \<Rightarrow> error + (vec \<times> vec \<times> real) \<times> cell list list \<times> batch_norm" where
  "HIVAEModule_forward m bn gumbels noise dt input_tensor reconstr_error_weight reconstruction_mode =
     (if reconstruction_mode \<notin> {''mode'', ''sample''}
        then Inl (AssertionError ''reconstruction_mode has to be either mode or sample'')
      else
        bind_err (forward_reconstruction_input m bn gumbels noise input_tensor)
          (\<lambda>((mean_t, std_t, mix_components_dists, observed_mask),
              (latent_tensor, mix_components, normed), input_after, bn2).
        bind_err (HIDecoder_reconstruction_error (decoder m) bn2 normed latent_tensor mix_components observed_mask)
          (\<lambda>reconstr_error.
        bind_err (Linear_forward (p_mean (encoder m)) mix_components) (\<lambda>p_mean_t.
        bind_err (Linear_forward (p_var (encoder m)) mix_components) (\<lambda>p_var0.
          (let p_var_t = map (map softplus) p_var0;
               kl = latent_kl (latent_dim m) mean_t std_t p_mean_t p_var_t
           in bind_err (argmax_dim1 mix_components_dists) (\<lambda>idx.
              bind_err (cross_entropy mix_components_dists (map int idx)) (\<lambda>ce.
                (let kl_s = ce + ln (real (module_n_mix_components m)) in
                 bind_err (broadcast2 (\<lambda>r k. reconstr_error_weight * r + k + kl_s) reconstr_error kl) (\<lambda>total.
                 bind_err (mean_tensor total) (\<lambda>average_negative_elbo.
                   Inr ((reconstr_error, kl, average_negative_elbo),
                        (if dt = Float32 then input_after else input_tensor), bn2))))))))))))"

text \<open>
  \<^verbatim>\<open>HIVAEModule.reconstruct\<close>.  The encoder returns a tuple of four tensors, which
  line 674 unpacks into three names.  \<open>decode\<close> stands for the lines after it, the
  sampling and the call of the decoder.
\<close>

datatype pyobject = FloatTensor matrix | BoolTensor "bool list list"

definition unpack3 :: "pyobject list \<Rightarrow> error + pyobject \<times> pyobject \<times> pyobject" where
  "unpack3 objs =
     (case objs of
        [a, b, c] \<Rightarrow> Inr (a, b, c)
      | _ \<Rightarrow> if length objs < 3 then Inl (ValueError ''not enough values to unpack (expected 3)'')
             else Inl (ValueError ''too many values to unpack (expected 3)''))"

definition HIVAEModule_reconstruct ::
  "HIVAEModule \<Rightarrow> batch_norm \<Rightarrow> (nat \<Rightarrow> nat \<Rightarrow> real) \<Rightarrow> (pyobject \<times> pyobject \<times> pyobject \<Rightarrow> string \<Rightarrow> error + matrix)
    \<Rightarrow> cell list list \<Rightarrow> string \<Rightarrow> error + matrix" where
  "HIVAEModule_reconstruct m bn gumbels decode input_tensor reconstruction_mode =
     bind_err (HIEncoder_forward (encoder m) bn gumbels input_tensor)
       (\<lambda>((mean_t, std_t, mix_component_dists, observed_mask), input_after, bn').
     bind_err (unpack3 [FloatTensor mean_t, FloatTensor std_t, FloatTensor mix_component_dists,
                        BoolTensor observed_mask]) (\<lambda>unpacked.
       decode unpacked reconstruction_mode))"

text \<open>
  \<^verbatim>\<open>HIVAE\<close> wraps the module (its base class \<^verbatim>\<open>VAE\<close> belongs to another file);
  \<^verbatim>\<open>HIVAE.reconstruct\<close> hands its arguments on.
\<close>

record HIVAE =
  hivae_n_mix_components :: nat
  hivae_model :: HIVAEModule

definition HIVAE_reconstruct ::
  "HIVAE \<Rightarrow> batch_norm \<Rightarrow> (nat \<Rightarrow> nat \<Rightarrow> real) \<Rightarrow> (pyobject \<times> pyobject \<times> pyobject \<Rightarrow> string \<Rightarrow> error + matrix)
    \<Rightarrow> cell list list \<Rightarrow> string \<Rightarrow> error + matrix" where
  "HIVAE_reconstruct self bn gumbels decode input_tensor reconstruction_mode =
     HIVAEModule_reconstruct (hivae_model self) bn gumbels decode input_tensor reconstruction_mode"

section \<open>The novelty-scoring adapter\<close>

text \<open>
  \<^verbatim>\<open>src/models/novelty_estimator.py\<close>.  The model classes and the two metrics are
  not part of these files: a trained model is the record of the methods the scoring
  functions call, and \<^verbatim>\<open>entropy\<close> and \<^verbatim>\<open>max_prob\<close> (taken along axis 1) are
  the fields of \<open>metrics\<close>.  \<^verbatim>\<open>AVAILABLE_MODELS\<close> is imported from a module that is not
  part of these files either; it is an argument, listed in the order in which Python
  iterates over it.
\<close>

record model_api =
  score_samples :: "matrix \<Rightarrow> vec"
  get_reconstr_error :: "matrix \<Rightarrow> vec"
  get_latent_prob :: "matrix \<Rightarrow> vec"
  get_latent_prior_prob :: "matrix \<Rightarrow> vec"
  get_reconstruction_grad_magnitude :: "matrix \<Rightarrow> vec"
  predict_proba :: "matrix \<Rightarrow> matrix"
  get_std :: "matrix \<Rightarrow> vec"
  get_mutual_information :: "matrix \<Rightarrow> vec"

record metrics =
  entropy :: "matrix \<Rightarrow> vec"
  max_prob :: "matrix \<Rightarrow> vec"

definition neg :: "vec \<Rightarrow> vec" where
  "neg xs = map uminus xs"

definition SCORING_FUNCS_items :: "metrics \<Rightarrow> ((string \<times> string) \<times> (model_api \<Rightarrow> matrix \<Rightarrow> vec)) list" where
  "SCORING_FUNCS_items mt =
     [((''PPCA'', ''log_prob''), \<lambda>model data. neg (score_samples model data)),
      ((''AE'', ''reconstr_err''), \<lambda>model data. get_reconstr_error model data),
      ((''HI-VAE'', ''reconstr_err''), \<lambda>model data. get_reconstr_error model data),
      ((''HI-VAE'', ''latent_prob''), \<lambda>model data. neg (get_latent_prob model data)),
      ((''HI-VAE'', ''latent_prior_prob''), \<lambda>model data. neg (get_latent_prior_prob model data)),
      ((''HI-VAE'', ''reconstr_err_grad''), \<lambda>model data. get_reconstruction_grad_magnitude model data),
      ((''VAE'', ''reconstr_err''), \<lambda>model data. get_reconstr_error model data),
      ((''VAE'', ''latent_prob''), \<lambda>model data. neg (get_latent_prob model data)),
      ((''VAE'', ''latent_prior_prob''), \<lambda>model data. neg (get_latent_prior_prob model data)),
      ((''VAE'', ''reconstr_err_grad''), \<lambda>model data. get_reconstruction_grad_magnitude model data),
      ((''LogReg'', ''entropy''), \<lambda>model data. entropy mt (predict_proba model data)),
      ((''LogReg'', ''max_prob''), \<lambda>model data. max_prob mt (predict_proba model data)),
      ((''NN'', ''entropy''), \<lambda>model data. entropy mt (predict_proba model data)),
      ((''NN'', ''max_prob''), \<lambda>model data. max_prob mt (predict_proba model data)),
      ((''PlattScalingNN'', ''entropy''), \<lambda>model data. entropy mt (predict_proba model data)),
      ((''PlattScalingNN'', ''max_prob''), \<lambda>model data. max_prob mt (predict_proba model data)),
      ((''MCDropout'', ''entropy''), \<lambda>model data. entropy mt (predict_proba model data)),
      ((''MCDropout'', ''std''), \<lambda>model data. get_std model data),
      ((''MCDropout'', ''mutual_information''), \<lambda>model data. get_mutual_information model data),
      ((''BBB'', ''entropy''), \<lambda>model data. entropy mt (predict_proba model data)),
      ((''BBB'', ''std''), \<lambda>model data. get_std model data),
      ((''BBB'', ''mutual_information''), \<lambda>model data. get_mutual_information model data),
      ((''NNEnsemble'', ''entropy''), \<lambda>model data. entropy mt (predict_proba model data)),
      ((''NNEnsemble'', ''std''), \<lambda>model data. get_std model data),
      ((''NNEnsemble'', ''mutual_information''), \<lambda>model data. get_mutual_information model data),
      ((''BootstrappedNNEnsemble'', ''entropy''), \<lambda>model data. entropy mt (predict_proba model data)),
      ((''BootstrappedNNEnsemble'', ''std''), \<lambda>model data. get_std model data),
      ((''BootstrappedNNEnsemble'', ''mutual_information''), \<lambda>model data. get_mutual_information model data),
      ((''AnchoredNNEnsemble'', ''entropy''), \<lambda>model data. entropy mt (predict_proba model data)),
      ((''AnchoredNNEnsemble'', ''std''), \<lambda>model data. get_std model data),
      ((''AnchoredNNEnsemble'', ''mutual_information''), \<lambda>model data. get_mutual_information model data)]"

definition SCORING_FUNCS :: "metrics \<Rightarrow> string \<times> string \<rightharpoonup> (model_api \<Rightarrow> matrix \<Rightarrow> vec)" where
  "SCORING_FUNCS mt = map_of (SCORING_FUNCS_items mt)"

text \<open>
  A \<^verbatim>\<open>NoveltyEstimator\<close>: its \<open>name\<close>, and the attribute \<open>model\<close>, which exists only once
  \<^verbatim>\<open>train\<close> has run.  (The constructor's other arguments are read by \<^verbatim>\<open>train\<close>
  alone.)
\<close>

record NoveltyEstimator =
  name :: string
  model :: "model_api option"

fun join :: "string \<Rightarrow> string list \<Rightarrow> string" where
  "join sep [] = []"
| "join sep [x] = x"
| "join sep (x # y # ys) = x @ sep @ join sep (y # ys)"

text \<open>\<^verbatim>\<open>NoveltyEstimator.get_novelty_score\<close>: the two assertions, then the dispatch.\<close>

definition get_novelty_score ::
  "string list \<Rightarrow> metrics \<Rightarrow> NoveltyEstimator \<Rightarrow> matrix \<Rightarrow> string \<Rightarrow> error + vec" where
  "get_novelty_score AVAILABLE_MODELS mt self data scoring_func =
     (if name self \<notin> set AVAILABLE_MODELS then
        Inl (AssertionError (''Unknown model '' @ name self @ '' found, has to be one of ''
                             @ join '', '' AVAILABLE_MODELS @ ''.''))
      else
        (case SCORING_FUNCS mt (name self, scoring_func) of
           None \<Rightarrow>
             Inl (AssertionError (''Unknown combination of '' @ name self @ '' and '' @ scoring_func
                                  @ '' found, has it been added to SCORING_FUNCS in src.models.novelty_estimator.py?''))
         | Some f \<Rightarrow>
             (case model self of
                None \<Rightarrow> Inl (AttributeError ''NoveltyEstimator object has no attribute model'')
              | Some m \<Rightarrow> Inr (f m data))))"

section \<open>Reference definitions\<close>

text \<open>
  The widths the specification gives for the encoded representation of one feature, and
  the textbook KL divergence of a diagonal Gaussian \<open>N(mean, std\<^sup>2)\<close> from the standard
  normal.  Both follow the specification's words, not the code; the theorems compare the
  code with them.
\<close>

definition encoded_width :: "FeatType \<Rightarrow> int" where
  "encoded_width ft =
     (case ft of (feat_type, feat_min, feat_max) \<Rightarrow>
        if feat_type = ''categorical'' then the feat_max + 1
        else if feat_type = ''ordinal'' then the feat_max - the feat_min + 1
        else 1)"

definition classic_gaussian_kl :: "vec \<Rightarrow> vec \<Rightarrow> real" where
  "classic_gaussian_kl mean_v std_v =
     0.5 * sum_list (map (\<lambda>(m, s). s ^ 2 + m ^ 2 - 1 - ln (s ^ 2)) (zip mean_v std_v))"

section \<open>Predicates and sample values of the theorems\<close>

text \<open>
  A value is in range for its feature when a categorical value truncates to one of
  \<open>0, ..., max\<close>; an ordinal feature must give both bounds, with \<open>min \<le> max + 1\<close>, and
  then admits every value.  A row is in range when it has one in-range value per feature.
\<close>

definition in_range :: "FeatType \<Rightarrow> real \<Rightarrow> bool" where
  "in_range ft v =
     (case ft of (feat_type, feat_min, feat_max) \<Rightarrow>
        if feat_type = ''categorical'' then
          (case feat_max of None \<Rightarrow> False | Some m \<Rightarrow> 0 \<le> long v \<and> long v \<le> m)
        else if feat_type = ''ordinal'' then
          (case (feat_min, feat_max) of (Some lo, Some hi) \<Rightarrow> lo \<le> hi + 1 | _ \<Rightarrow> False)
        else True)"

definition in_range_row :: "FeatTypes \<Rightarrow> vec \<Rightarrow> bool" where
  "in_range_row fts row = (length row = length fts \<and> list_all (\<lambda>(ft, v). in_range ft v) (zip fts row))"

definition example_metrics :: metrics where
  "example_metrics = \<lparr>entropy = map sum_list, max_prob = map (\<lambda>row. Max (set row))\<rparr>"

definition example_model :: model_api where
  "example_model =
     \<lparr>score_samples = map sum_list, get_reconstr_error = map sum_list, get_latent_prob = map sum_list,
      get_latent_prior_prob = map sum_list, get_reconstruction_grad_magnitude = map sum_list,
      predict_proba = map (\<lambda>row. [1 / 4, 3 / 4]), get_std = map sum_list,
      get_mutual_information = map sum_list\<rparr>"

text \<open>
  What \<^verbatim>\<open>normalize\<close> writes into the tensor it is given: missing cells become 0, and the
  positive_real and count columns become \<open>log(relu(x) + 1e-8)\<close>.  \<open>logged_input\<close> is that
  content as reals, \<open>after_normalize\<close> the same as cells.
\<close>

definition logged_input :: "FeatTypes \<Rightarrow> cell list list \<Rightarrow> matrix" where
  "logged_input fts X =
     map (\<lambda>row. map (\<lambda>(ft, c). if fst ft \<in> {''positive_real'', ''count''} then log_transform (zero_fill c)
                                 else zero_fill c) (zip fts row)) X"

definition after_normalize :: "FeatTypes \<Rightarrow> cell list list \<Rightarrow> cell list list" where
  "after_normalize fts X = map (map Some) (logged_input fts X)"

text \<open>
  The value the batch-norm layer gives an entry \<open>v\<close> of the column \<open>col\<close> when it is called
  through its hook: in training mode the batch's statistics normalise, in evaluation mode
  the statistics the hook has just reset.
\<close>

definition batch_normed :: "batch_norm \<Rightarrow> vec \<Rightarrow> real \<Rightarrow> real" where
  "batch_normed bn col v =
     (if training bn then (v - mean_list col) / sqrt (sq_dev col / real (length col) + eps bn)
      else v / sqrt (1 + eps bn))"

definition running_stats :: "batch_norm \<Rightarrow> vec \<times> vec \<times> real" where
  "running_stats bn = (running_mean bn, running_var bn, num_batches_tracked bn)"

text \<open>
  Sample models: parameters that are all zero, and parameters whose bias is the index of
  the output; a model with one count feature, one latent dimension, one mixture component
  and no hidden layer; an encoder for the same feature with two mixture components; and a
  decoder for one binary categorical feature.
\<close>

definition zero_parameters :: parameters where
  "zero_parameters = (\<lambda>out i. 0, \<lambda>out. 0)"

definition biased_parameters :: parameters where
  "biased_parameters = (\<lambda>out i. 0, \<lambda>out. real out)"

definition count_module :: HIVAEModule where
  "count_module =
     fst (projr (HIVAEModule_init [] 1 1 [(''count'', None, None)]
                   (\<lambda>name l. zero_parameters) (\<lambda>j name. zero_parameters)))"

definition two_component_encoder :: HIEncoder where
  "two_component_encoder =
     fst (projr (HIEncoder_init [] 1 2 [(''count'', None, None)] (\<lambda>name l. zero_parameters)))"

definition categorical_decoder :: HIDecoder where
  "categorical_decoder =
     projr (HIDecoder_init [] 1 1 [(''categorical'', None, Some 1)]
              (\<lambda>l. zero_parameters) (\<lambda>j name. biased_parameters))"

section \<open>Basic facts\<close>

lemma bind_err_simps:
  "bind_err (Inl e) f = Inl e"
  "bind_err (Inr v) f = f v"
  by (simp_all add: bind_err_def)

section \<open>C5: the latent KL term under a standard-normal prior\<close>

lemma kl_sum_standard_normal:
  fixes ms ss :: "real list"
  shows "length ms = length ss \<Longrightarrow> \<forall>s\<in>set ss. 0 < s \<Longrightarrow>
   sum_list (map (\<lambda>(lv, lpv, pm, m, pv). exp (lv - lpv) + (pm - m) ^ 2 / pv - lv + lpv)
      (zip (map (\<lambda>s. ln (s ^ 2)) ss) (zip (map ln (replicate (length ss) (1::real)))
         (zip (replicate (length ss) (0::real)) (zip ms (replicate (length ss) (1::real)))))))
   = sum_list (map (\<lambda>(m, s). s ^ 2 + m ^ 2 - 1 - ln (s ^ 2)) (zip ms ss)) + real (length ss)"
proof (induction ms ss rule: list_induct2)
  case Nil
  then show ?case by simp
next
  case (Cons m ms s ss)
  then show ?case by (simp add: algebra_simps)
qed

text \<open>
  C5 (the code departs from the claim).  With \<open>p_mean = 0\<close> and \<open>p_var = 1\<close> the KL term
  that \<^verbatim>\<open>HIVAEModule.forward\<close> computes for a sample is not the closed-form KL
  divergence of \<open>N(mean, std\<^sup>2)\<close> from the standard normal: for every \<open>mean\<close> and every
  positive \<open>std\<close> of the latent dimension it is that divergence plus \<open>latent_dim\<close>,
  because line 648 adds \<open>0.5 * latent_dim\<close> where the closed form subtracts it.
\<close>

theorem kl_row_standard_normal_prior:
  assumes "length mean_v = ld" and "length std_v = ld" and "\<forall>s\<in>set std_v. 0 < s"
  shows "kl_row ld mean_v std_v (replicate ld 0) (replicate ld 1)
         = classic_gaussian_kl mean_v std_v + real ld"
proof -
  have ld: "ld = length std_v" using assms(2) by simp
  have len: "length mean_v = length std_v" using assms by simp
  show ?thesis
    unfolding ld kl_row_def classic_gaussian_kl_def Let_def kl_sum_standard_normal[OF len assms(3)]
    by (simp add: algebra_simps)
qed

text \<open>
  At \<open>mean = [0]\<close>, \<open>std = [1]\<close> the posterior is the prior: the divergence is 0 and the
  code's term is 1.
\<close>

theorem kl_row_standard_normal_prior_witness:
  "kl_row 1 [0] [1] [0] [1] = 1 \<and> classic_gaussian_kl [0] [1] = 0"
  using kl_row_standard_normal_prior[of "[0]" 1 "[1]"]
  by (simp add: classic_gaussian_kl_def)

section \<open>C7: the dispatch of the novelty score\<close>

lemma SCORING_FUNCS_NN_entropy: "SCORING_FUNCS mt (''NN'', ''entropy'') = Some (\<lambda>model data. entropy mt (predict_proba model data))"
  by (simp add: SCORING_FUNCS_def SCORING_FUNCS_items_def)

lemma SCORING_FUNCS_PPCA_entropy: "SCORING_FUNCS mt (''PPCA'', ''entropy'') = None"
  by (simp add: SCORING_FUNCS_def SCORING_FUNCS_items_def)

text \<open>
  C7.  \<^verbatim>\<open>get_novelty_score\<close> raises an \<^verbatim>\<open>AssertionError\<close>, the error that carries
  the descriptive message, exactly when the estimator's name is not in
  \<^verbatim>\<open>AVAILABLE_MODELS\<close> or the pair of name and scoring function is not a key of
  \<^verbatim>\<open>SCORING_FUNCS\<close>; and for a recognised name and a registered pair it returns what
  the function registered for that pair computes from the trained model and the data.
\<close>

theorem get_novelty_score_dispatch:
  "((\<exists>msg. get_novelty_score AVAILABLE_MODELS mt self data scoring_func = Inl (AssertionError msg))
      \<longleftrightarrow> (name self \<notin> set AVAILABLE_MODELS \<or> SCORING_FUNCS mt (name self, scoring_func) = None))
   \<and> (name self \<in> set AVAILABLE_MODELS \<longrightarrow> SCORING_FUNCS mt (name self, scoring_func) = Some f
        \<longrightarrow> model self = Some m
        \<longrightarrow> get_novelty_score AVAILABLE_MODELS mt self data scoring_func = Inr (f m data))"
  by (auto simp: get_novelty_score_def split: option.splits)

text \<open>
  With the models \<open>PPCA\<close> and \<open>NN\<close> available: \<open>(NN, entropy)\<close> is dispatched to the
  entropy of \<^verbatim>\<open>predict_proba\<close>, and \<open>(PPCA, entropy)\<close> raises.
\<close>

theorem get_novelty_score_dispatch_witness:
  "get_novelty_score [''PPCA'', ''NN''] example_metrics \<lparr>name = ''NN'', model = Some example_model\<rparr> [[1, 2]] ''entropy''
     = Inr [1]
   \<and> (\<exists>msg. get_novelty_score [''PPCA'', ''NN''] example_metrics \<lparr>name = ''PPCA'', model = Some example_model\<rparr> [[1, 2]] ''entropy''
        = Inl (AssertionError msg))"
  using get_novelty_score_dispatch[of "[''PPCA'', ''NN'']" example_metrics
          "\<lparr>name = ''NN'', model = Some example_model\<rparr>" "[[1, 2]]" "''entropy''"
          "\<lambda>model data. entropy example_metrics (predict_proba model data)" example_model]
        get_novelty_score_dispatch[of "[''PPCA'', ''NN'']" example_metrics
          "\<lparr>name = ''PPCA'', model = Some example_model\<rparr>" "[[1, 2]]" "''entropy''"]
  by (simp add: SCORING_FUNCS_NN_entropy SCORING_FUNCS_PPCA_entropy example_metrics_def example_model_def)

section \<open>C8: the width of the encoded input\<close>

lemma one_hot_row_length: "length (one_hot_row k l) = k"
  by (simp add: one_hot_row_def)

lemma thermometer_row_length: "length (thermometer_row k v) = k"
  by (simp add: thermometer_row_def)

lemma select_column_ok:
  "\<forall>row\<in>set X. j < length row \<Longrightarrow> select_column X j = Inr (column X j)"
  by (auto simp: select_column_def)

lemma encode_feature_ok:
  assumes "X \<noteq> []" and "\<forall>row\<in>set X. j < length row \<and> in_range ft (row ! j)"
  shows "\<exists>E. encode_feature ft j X = Inr E \<and> length E = length X
            \<and> (\<forall>r\<in>set E. int (length r) = encoded_width ft)"
proof -
  obtain t lo hi where ft: "ft = (t, lo, hi)" by (cases ft) auto
  have sel: "select_column X j = Inr (column X j)"
    using assms(2) by (simp add: select_column_ok)
  obtain row0 where row0: "row0 \<in> set X" using assms(1) by (cases X) auto
  show ?thesis
  proof (cases "t = ''categorical''")
    case True
    from assms(2) row0 ft True obtain m where m: "hi = Some m"
      by (cases hi) (auto simp: in_range_def)
    have rng: "\<forall>row\<in>set X. 0 \<le> long (row ! j) \<and> long (row ! j) \<le> m"
      using assms(2) ft True m by (auto simp: in_range_def)
    with row0 have m0: "0 \<le> m" by force
    have "one_hot (map long (column X j)) (m + 1) = Inr (map (one_hot_row (nat (m + 1))) (map long (column X j)))"
      using rng m0 assms(1) by (auto simp: one_hot_def column_def)
    then show ?thesis
      using ft True m sel m0
      by (auto simp: encode_feature_def int_of_def bind_err_simps encoded_width_def column_def one_hot_row_length)
  next
    case False
    note notcat = False
    show ?thesis
    proof (cases "t = ''ordinal''")
      case True
      from assms(2) row0 ft True obtain l h where lh: "lo = Some l" "hi = Some h" "l \<le> h + 1"
        by (cases lo; cases hi) (auto simp: in_range_def)
      then show ?thesis
        using ft True sel assms(1)
        by (auto simp: encode_feature_def num_values_of_def bind_err_simps encoded_width_def column_def
            thermometer_row_length)
    next
      case False
      then show ?thesis
        using ft notcat sel
        by (auto simp: encode_feature_def bind_err_simps encoded_width_def column_def)
    qed
  qed
qed

lemma categorical_encode_from_ok:
  assumes "X \<noteq> []"
  shows "\<forall>row\<in>set X. j + length fts \<le> length row \<and> list_all (\<lambda>(ft, v). in_range ft v) (zip fts (drop j row)) \<Longrightarrow>
     length acc = length X \<Longrightarrow> \<forall>r\<in>set acc. int (length r) = w \<Longrightarrow>
     \<exists>E. categorical_encode_from fts j X acc = Inr E \<and> length E = length X
          \<and> (\<forall>r\<in>set E. int (length r) = w + sum_list (map encoded_width fts))"
proof (induction fts arbitrary: j acc w)
  case Nil
  then show ?case by simp
next
  case (Cons ft fts)
  have hd: "\<forall>row\<in>set X. j < length row \<and> in_range ft (row ! j)"
  proof
    fix row assume r: "row \<in> set X"
    with Cons.prems(1) have a: "j + length (ft # fts) \<le> length row"
      and b: "list_all (\<lambda>(ft, v). in_range ft v) (zip (ft # fts) (drop j row))" by auto
    from a have lt: "j < length row" by simp
    then have "drop j row = row ! j # drop (Suc j) row" by (simp add: Cons_nth_drop_Suc)
    with b lt show "j < length row \<and> in_range ft (row ! j)" by simp
  qed
  from encode_feature_ok[OF assms hd] obtain enc where enc:
    "encode_feature ft j X = Inr enc" "length enc = length X" "\<forall>r\<in>set enc. int (length r) = encoded_width ft"
    by blast
  let ?acc' = "map (\<lambda>(a, b). a @ b) (zip acc enc)"
  have cat: "cat_dim1 acc enc = Inr ?acc'"
    using enc(2) Cons.prems(2) by (simp add: cat_dim1_def)
  have len': "length ?acc' = length X" using enc(2) Cons.prems(2) by simp
  have w': "\<forall>r\<in>set ?acc'. int (length r) = w + encoded_width ft"
  proof
    fix r assume "r \<in> set ?acc'"
    then obtain a b where ab: "(a, b) \<in> set (zip acc enc)" "r = a @ b" by auto
    then have "a \<in> set acc" "b \<in> set enc" by (auto dest: set_zip_leftD set_zip_rightD)
    with enc(3) Cons.prems(3) ab(2) show "int (length r) = w + encoded_width ft" by simp
  qed
  have tl: "\<forall>row\<in>set X. Suc j + length fts \<le> length row \<and> list_all (\<lambda>(ft, v). in_range ft v) (zip fts (drop (Suc j) row))"
  proof
    fix row assume r: "row \<in> set X"
    with Cons.prems(1) have a: "j + length (ft # fts) \<le> length row"
      and b: "list_all (\<lambda>(ft, v). in_range ft v) (zip (ft # fts) (drop j row))" by auto
    from a have lt: "j < length row" by simp
    then have "drop j row = row ! j # drop (Suc j) row" by (simp add: Cons_nth_drop_Suc)
    with a b show "Suc j + length fts \<le> length row \<and> list_all (\<lambda>(ft, v). in_range ft v) (zip fts (drop (Suc j) row))"
      by simp
  qed
  from Cons.IH[OF tl len' w'] obtain E where
    "categorical_encode_from fts (Suc j) X ?acc' = Inr E" "length E = length X"
    "\<forall>r\<in>set E. int (length r) = w + encoded_width ft + sum_list (map encoded_width fts)" by blast
  then show ?case using enc(1) cat by (auto simp: bind_err_simps)
qed

lemma get_encoded_input_size_from_ok:
  "list_all (\<lambda>(ft, v). in_range ft v) (zip fts row) \<Longrightarrow> length row = length fts \<Longrightarrow>
   get_encoded_input_size_from acc fts = Inr (acc + sum_list (map encoded_width fts))"
proof (induction fts arbitrary: acc row)
  case Nil
  then show ?case by simp
next
  case (Cons ft fts)
  obtain t lo hi where ft: "ft = (t, lo, hi)" by (cases ft) auto
  from Cons.prems obtain v vs where row: "row = v # vs" by (cases row) auto
  with Cons.prems have v: "in_range ft v" and vs: "list_all (\<lambda>(ft, v). in_range ft v) (zip fts vs)" "length vs = length fts"
    by auto
  note IH = Cons.IH[OF vs]
  show ?case
    using v ft IH
    by (cases lo; cases hi) (auto simp: in_range_def int_of_def num_values_of_def bind_err_simps encoded_width_def)
qed

text \<open>
  C8.  For every list of feature types and every batch (of at least one row) whose rows
  are in range, \<^verbatim>\<open>categorical_encode\<close> succeeds and every row of the expanded
  representation has as many columns as the encoded widths of the features sum to: 1 for
  real, positive_real and count, \<open>max + 1\<close> for categorical, \<open>max - min + 1\<close> for ordinal;
  and that sum is what \<^verbatim>\<open>get_encoded_input_size\<close> returns.
\<close>

theorem categorical_encode_width:
  assumes "input_tensor \<noteq> []" and "\<forall>row\<in>set input_tensor. in_range_row fts row"
  shows "\<exists>E. categorical_encode fts input_tensor = Inr E
            \<and> length E = length input_tensor
            \<and> (\<forall>r\<in>set E. int (length r) = sum_list (map encoded_width fts))
            \<and> get_encoded_input_size fts = Inr (sum_list (map encoded_width fts))"
proof -
  obtain row0 where row0: "row0 \<in> set input_tensor" using assms(1) by (cases input_tensor) auto
  have a: "\<forall>row\<in>set input_tensor. 0 + length fts \<le> length row \<and> list_all (\<lambda>(ft, v). in_range ft v) (zip fts (drop 0 row))"
    using assms(2) by (auto simp: in_range_row_def)
  have "\<exists>E. categorical_encode_from fts 0 input_tensor (map (\<lambda>row. []) input_tensor) = Inr E \<and> length E = length input_tensor
          \<and> (\<forall>r\<in>set E. int (length r) = 0 + sum_list (map encoded_width fts))"
    by (rule categorical_encode_from_ok[OF assms(1) a]) auto
  moreover have "get_encoded_input_size fts = Inr (sum_list (map encoded_width fts))"
    using get_encoded_input_size_from_ok[of fts row0 0] assms(2) row0
    by (auto simp: get_encoded_input_size_def in_range_row_def)
  ultimately show ?thesis by (simp add: categorical_encode_def)
qed

text \<open>
  A real, a categorical (\<open>max = 2\<close>) and an ordinal (\<open>min = 1\<close>, \<open>max = 3\<close>) feature
  give \<open>1 + 3 + 3 = 7\<close> columns.
\<close>

lemma example_encoding:
  "categorical_encode [(''real'', None, None), (''categorical'', None, Some 2), (''ordinal'', Some 1, Some 3)]
       [[1 / 2, 2, 2], [- 1, 0, 1]]
     = Inr [[1 / 2, 0, 0, 1, 1, 1, 1], [- 1, 1, 0, 0, 1, 1, 0]]"
  by (simp add: categorical_encode_def encode_feature_def select_column_def column_def one_hot_def
      one_hot_row_def thermometer_row_def long_def cat_dim1_def bind_err_simps int_of_def
      num_values_of_def upt_rec)

theorem categorical_encode_width_witness:
  "categorical_encode [(''real'', None, None), (''categorical'', None, Some 2), (''ordinal'', Some 1, Some 3)]
       [[1 / 2, 2, 2], [- 1, 0, 1]]
     = Inr [[1 / 2, 0, 0, 1, 1, 1, 1], [- 1, 1, 0, 0, 1, 1, 0]]
   \<and> get_encoded_input_size [(''real'', None, None), (''categorical'', None, Some 2), (''ordinal'', Some 1, Some 3)] = Inr 7"
  using categorical_encode_width[of "[[1 / 2, 2, 2], [- 1, 0, 1]]"
      "[(''real'', None, None), (''categorical'', None, Some 2), (''ordinal'', Some 1, Some 3)]"]
  by (simp add: example_encoding in_range_row_def in_range_def long_def encoded_width_def)

section \<open>Inversion and shape lemmas\<close>

lemma bind_err_Inr_iff:
  "bind_err m f = Inr r \<longleftrightarrow> (\<exists>v. m = Inr v \<and> f v = Inr r)"
  by (cases m) (simp_all add: bind_err_def)

lemma column_length: "length (column X j) = length X"
  by (simp add: column_def)

lemma softmax_length [simp]: "length (softmax xs) = length xs"
  by (simp add: softmax_def)

lemma argmax_less: "xs \<noteq> [] \<Longrightarrow> argmax xs < length xs"
  by (induction xs rule: argmax.induct) (auto simp: Let_def)

lemma Linear_forward_Inr:
  assumes "Linear_forward l X = Inr Y"
  shows "(\<forall>x\<in>set X. length x = in_features l) \<and> length Y = length X \<and> (\<forall>y\<in>set Y. length y = out_features l)"
  using assms by (auto simp: Linear_forward_def Linear_row_def split: if_splits)

lemma Linear_forward_ok:
  assumes "\<forall>x\<in>set X. length x = in_features l"
  shows "\<exists>Y. Linear_forward l X = Inr Y \<and> length Y = length X \<and> (\<forall>y\<in>set Y. length y = out_features l)"
  using assms by (auto simp: Linear_forward_def Linear_row_def)

lemma Linear_forward_mismatch:
  assumes "x \<in> set X" and "length x \<noteq> in_features l"
  shows "Linear_forward l X = Inl (RuntimeError ''mat1 and mat2 shapes cannot be multiplied'')"
  using assms by (auto simp: Linear_forward_def)

lemma Sequential_hidden_layers:
  "\<forall>x\<in>set X. length x = a \<Longrightarrow>
   \<exists>Y. Sequential_forward (map (\<lambda>(l, (in_dim, out_dim)). Linear in_dim out_dim (p l))
                              (enumerate k (zip (butlast (a # hs)) (tl (a # hs))))) X = Inr Y
        \<and> length Y = length X \<and> (\<forall>y\<in>set Y. length y = last (a # hs))"
proof (induction hs arbitrary: a k X)
  case Nil
  then show ?case by simp
next
  case (Cons h hs)
  have "\<forall>x\<in>set X. length x = in_features (Linear a h (p k))"
    using Cons.prems by (simp add: Linear_def)
  from Linear_forward_ok[OF this] obtain Y where
    Y: "Linear_forward (Linear a h (p k)) X = Inr Y" "length Y = length X"
       "\<forall>y\<in>set Y. length y = h" by (auto simp: Linear_def)
  have "\<forall>x\<in>set (map (map leaky_relu) Y). length x = h" using Y(3) by auto
  from Cons.IH[OF this, of "Suc k"] obtain Z where
    Z: "Sequential_forward (map (\<lambda>(l, (in_dim, out_dim)). Linear in_dim out_dim (p l))
                              (enumerate (Suc k) (zip (butlast (h # hs)) (tl (h # hs)))))
          (map (map leaky_relu) Y) = Inr Z"
       "length Z = length Y" "\<forall>y\<in>set Z. length y = last (h # hs)" by auto
  show ?case using Y Z by (simp add: bind_err_simps)
qed

lemma gumbel_softmax_shape:
  "length (gumbel_softmax g L) = length L \<and> (\<forall>i<length L. length (gumbel_softmax g L ! i) = length (L ! i))"
  by (simp add: gumbel_softmax_def softmax_def enumerate_eq_zip)

lemma one_hot_infer:
  assumes "idx \<noteq> []"
  shows "\<exists>i\<in>set idx. one_hot (map int idx) (- 1) = Inr (map (one_hot_row (Suc i)) (map int idx))"
proof -
  have fin: "finite (int ` set idx)" "int ` set idx \<noteq> {}" using assms by auto
  from Max_in[OF fin] obtain i where i: "i \<in> set idx" "Max (int ` set idx) = int i" by auto
  have "one_hot (map int idx) (- 1) = Inr (map (one_hot_row (nat (int i + 1))) (map int idx))"
    using assms i(2) by (auto simp: one_hot_def)
  moreover have "nat (int i + 1) = Suc i" by simp
  ultimately show ?thesis using i(1) by auto
qed

lemma categorical_encode_from_length:
  "categorical_encode_from fts j X acc = Inr E \<Longrightarrow> length E = length acc"
proof (induction fts arbitrary: j acc)
  case Nil
  then show ?case by simp
next
  case (Cons ft fts)
  from Cons.prems obtain encoding acc' where
    c: "cat_dim1 acc encoding = Inr acc'" and r: "categorical_encode_from fts (Suc j) X acc' = Inr E"
    by (auto simp: bind_err_Inr_iff)
  from c have "length acc' = length acc" by (auto simp: cat_dim1_def split: if_splits)
  with Cons.IH[OF r] show ?case by simp
qed

lemma map_err_length: "map_err f xs = Inr ys \<Longrightarrow> length ys = length xs"
proof (induction xs arbitrary: ys)
  case Nil
  then show ?case by simp
next
  case (Cons x xs)
  then show ?case by (auto simp: bind_err_Inr_iff)
qed

lemma normalize_logged:
  "map (\<lambda>row. map (\<lambda>(b, v). if b then log_transform v else v)
                 (zip (map (\<lambda>feat_type. feat_type \<in> {''positive_real'', ''count''}) (map fst fts)) row))
       (map (map zero_fill) X)
   = logged_input fts X"
  by (simp add: logged_input_def zip_map_map comp_def case_prod_unfold)

lemma normalize_Inr:
  assumes "normalize fts bn X = Inr ((normed, observed_mask), after, bn')"
  shows "fts \<noteq> []" and "\<forall>row\<in>set X. length row = length fts"
    and "observed_mask = map (map (\<lambda>c. c \<noteq> None)) X"
    and "after = map (map Some) (logged_input fts X)"
    and "\<exists>out. real_batch_norm bn (logged_input fts X) = Inr (out, bn')
           \<and> normed = map (\<lambda>(normed_row, row). map (\<lambda>(b, y, v). if b then v else y)
                        (zip (map (\<lambda>feat_type. feat_type \<notin> {''real'', ''positive_real''}) (map fst fts))
                             (zip normed_row row)))
                     (zip out (logged_input fts X))"
  using assms unfolding normalize_def Let_def normalize_logged
  by (auto simp: bind_err_Inr_iff split: if_splits)

lemma real_batch_norm_Inr:
  assumes "real_batch_norm bn L = Inr (out, bn')"
  shows "(\<forall>row\<in>set L. length row = length (running_mean bn))
       \<and> out = map (\<lambda>row. map (\<lambda>j. batch_normed bn (column L j) (row ! j)) [0..<length (running_mean bn)]) L
       \<and> running_stats bn' =
           (if training bn
            then (map (\<lambda>j. momentum bn * mean_list (column L j)) [0..<length (running_mean bn)],
                  map (\<lambda>j. (1 - momentum bn) + momentum bn * (sq_dev (column L j) / (real (length L) - 1)))
                    [0..<length (running_mean bn)],
                  1)
            else (replicate (length (running_mean bn)) 0, replicate (length (running_mean bn)) 1, 0))
       \<and> training bn' = training bn \<and> eps bn' = eps bn \<and> momentum bn' = momentum bn
       \<and> length (running_mean bn') = length (running_mean bn)
       \<and> length (running_var bn') = length (running_mean bn)"
  using assms
  unfolding real_batch_norm_def BatchNorm1d_forward_def batch_norm_reset_hook_def Let_def
  by (auto simp: batch_normed_def running_stats_def column_length split: if_splits cong: map_cong)

lemma logged_input_nth:
  assumes "i < length X" and "j < length fts" and "length (X ! i) = length fts"
  shows "logged_input fts X ! i ! j =
           (if fst (fts ! j) \<in> {''positive_real'', ''count''} then log_transform (zero_fill (X ! i ! j))
            else zero_fill (X ! i ! j))"
  using assms by (simp add: logged_input_def)

lemma logged_input_length: "length (logged_input fts X) = length X"
  by (simp add: logged_input_def)

lemma logged_input_row_length:
  "i < length X \<Longrightarrow> length (logged_input fts X ! i) = min (length fts) (length (X ! i))"
  by (simp add: logged_input_def)

lemma logged_input_Some:
  assumes "\<forall>row\<in>set X. length row = length fts" and "i < length X" and "j < length fts"
  shows "zero_fill (map (map Some) (logged_input fts X) ! i ! j) = logged_input fts X ! i ! j"
  using assms by (simp add: logged_input_def zero_fill_def)

lemma batch_normed_cong:
  "training bn1 = training bn \<Longrightarrow> eps bn1 = eps bn \<Longrightarrow> batch_normed bn1 = batch_normed bn"
  by (auto simp: batch_normed_def fun_eq_iff)

lemma HIEncoder_init_Inr:
  assumes "HIEncoder_init hidden_sizes ld n_mix fts \<theta> = Inr (enc, bn0)"
  shows "\<exists>size. n_mix_components enc = n_mix \<and> feat_types enc = fts
          \<and> mixture_model enc = Linear size n_mix (\<theta> ''mixture_model'' 0)
          \<and> hidden enc = hidden_layers (size # hidden_sizes) (\<theta> ''hidden'')
          \<and> mean enc = Linear (last (size # hidden_sizes) + n_mix) ld (\<theta> ''mean'' 0)
          \<and> var enc = Linear (last (size # hidden_sizes) + n_mix) ld (\<theta> ''var'' 0)"
  using assms unfolding HIEncoder_init_def Let_def
  by (auto simp: bind_err_Inr_iff split: if_splits)

lemma HIEncoder_mix_component_dists_Inr:
  assumes "HIEncoder_mix_component_dists enc bn gumbels X = Inr ((encoded, dists, observed_mask), after, bn')"
  shows "\<exists>normed. normalize (feat_types enc) bn X = Inr ((normed, observed_mask), after, bn')
           \<and> categorical_encode (feat_types enc) normed = Inr encoded
           \<and> sample_mix_components enc gumbels encoded = Inr dists"
  using assms unfolding HIEncoder_mix_component_dists_def
  by (auto simp: bind_err_Inr_iff split: prod.splits)

lemma HIEncoder_forward_Inr:
  assumes "HIEncoder_forward enc bn gumbels X = Inr ((mean_t, std_t, dists, observed_mask), after, bn')"
  shows "\<exists>encoded. HIEncoder_mix_component_dists enc bn gumbels X = Inr ((encoded, dists, observed_mask), after, bn')
           \<and> HIEncoder_heads enc encoded dists = Inr (mean_t, std_t)"
  using assms unfolding HIEncoder_forward_def
  by (auto simp: bind_err_Inr_iff split: prod.splits)

lemma forward_reconstruction_input_Inr:
  assumes "forward_reconstruction_input m bn gumbels noise X
             = Inr ((mean_t, std_t, dists, observed_mask), (latent, mix, normed), after, bn2)"
  shows "\<exists>after1 bn1 unused.
           HIEncoder_forward (encoder m) bn gumbels X = Inr ((mean_t, std_t, dists, observed_mask), after1, bn1)
         \<and> normalize (feat_types (encoder m)) bn1 after1 = Inr ((normed, unused), after, bn2)"
  using assms unfolding forward_reconstruction_input_def Let_def
  by (auto simp: bind_err_Inr_iff split: prod.splits)

lemma HIVAEModule_forward_Inr:
  assumes "HIVAEModule_forward m bn gumbels noise dt X w reconstruction_mode
             = Inr ((reconstr_error, kl, elbo), caller_after, bn_f)"
  shows "\<exists>mean_t std_t dists observed_mask latent mix normed after.
           forward_reconstruction_input m bn gumbels noise X
             = Inr ((mean_t, std_t, dists, observed_mask), (latent, mix, normed), after, bn_f)
         \<and> HIDecoder_reconstruction_error (decoder m) bn_f normed latent mix observed_mask = Inr reconstr_error
         \<and> caller_after = (if dt = Float32 then after else X)"
  using assms unfolding HIVAEModule_forward_def Let_def
  by (cases dt) (auto simp: bind_err_Inr_iff split: prod.splits if_splits)

lemma normalize_cell:
  assumes "normalize fts bn X = Inr ((normed, observed_mask), after, bn')"
    and "i < length X" and "j < length fts"
  shows "logged_input fts X ! i ! j =
           (if fst (fts ! j) \<in> {''positive_real'', ''count''} then log_transform (zero_fill (X ! i ! j))
            else zero_fill (X ! i ! j))
       \<and> normed ! i ! j =
           (if fst (fts ! j) \<in> {''real'', ''positive_real''}
            then batch_normed bn (column (logged_input fts X) j) (logged_input fts X ! i ! j)
            else logged_input fts X ! i ! j)"
proof -
  note N = normalize_Inr[OF assms(1)]
  have rowlen: "length (X ! i) = length fts" using N(2) assms(2) by simp
  from N(5) obtain out where out: "real_batch_norm bn (logged_input fts X) = Inr (out, bn')"
    and normed: "normed = map (\<lambda>(normed_row, row). map (\<lambda>(b, y, v). if b then v else y)
                        (zip (map (\<lambda>feat_type. feat_type \<notin> {''real'', ''positive_real''}) (map fst fts))
                             (zip normed_row row)))
                     (zip out (logged_input fts X))" by blast
  note B = real_batch_norm_Inr[OF out]
  have Lrow: "length (logged_input fts X ! i) = length fts"
    using logged_input_row_length[OF assms(2), of fts] rowlen by simp
  have "logged_input fts X ! i \<in> set (logged_input fts X)"
    using assms(2) by (simp add: logged_input_length)
  with B have C: "length (running_mean bn) = length fts" using Lrow by auto
  have outlen: "length out = length X" using B by (simp add: logged_input_length)
  have outrow: "out ! i = map (\<lambda>j. batch_normed bn (column (logged_input fts X) j) (logged_input fts X ! i ! j)) [0..<length fts]"
    using B C assms(2) by (simp add: logged_input_length)
  have "normed ! i ! j =
           (if fst (fts ! j) \<in> {''real'', ''positive_real''}
            then batch_normed bn (column (logged_input fts X) j) (logged_input fts X ! i ! j)
            else logged_input fts X ! i ! j)"
    unfolding normed using assms(2,3) outlen outrow Lrow
    by (simp add: logged_input_length)
  then show ?thesis using logged_input_nth[OF assms(2,3) rowlen] by simp
qed

lemma normalize_running_stats:
  assumes "normalize fts bn X = Inr ((normed, observed_mask), after, bn')" and "X \<noteq> []"
  shows "running_stats bn' =
           (if training bn
            then (map (\<lambda>j. momentum bn * mean_list (column (logged_input fts X) j)) [0..<length fts],
                  map (\<lambda>j. (1 - momentum bn)
                            + momentum bn * (sq_dev (column (logged_input fts X) j) / (real (length X) - 1)))
                    [0..<length fts],
                  1)
            else (replicate (length fts) 0, replicate (length fts) 1, 0))"
proof -
  note N = normalize_Inr[OF assms(1)]
  from N(5) obtain out where out: "real_batch_norm bn (logged_input fts X) = Inr (out, bn')" by blast
  note B = real_batch_norm_Inr[OF out]
  have i: "0 < length X" using assms(2) by simp
  have rowlen: "length (X ! 0) = length fts" using N(2) i by simp
  have Lrow: "length (logged_input fts X ! 0) = length fts"
    using logged_input_row_length[OF i, of fts] rowlen by simp
  have "logged_input fts X ! 0 \<in> set (logged_input fts X)"
    using i by (simp add: logged_input_length)
  with B have C: "length (running_mean bn) = length fts" using Lrow by auto
  show ?thesis using B unfolding C by (simp add: logged_input_length)
qed

section \<open>Runs of the sample models\<close>

lemmas normalize_eval =
  normalize_def real_batch_norm_def BatchNorm1d_forward_def batch_norm_reset_hook_def
  BatchNorm1d_def Let_def zero_fill_def column_def mean_list_def sq_dev_def bind_err_simps

lemma zero_Linear_row [simp]: "Linear_row (Linear a b zero_parameters) x = replicate b 0"
proof -
  have "sum_list (replicate a (0::real)) = 0" by (induction a) simp_all
  then show ?thesis
    by (simp add: Linear_row_def Linear_def zero_parameters_def map_replicate_const)
qed

lemma zero_Linear_forward:
  "Linear_forward (Linear a b zero_parameters) X =
     (if \<exists>x\<in>set X. length x \<noteq> a then Inl (RuntimeError ''mat1 and mat2 shapes cannot be multiplied'')
      else Inr (map (\<lambda>x. replicate b 0) X))"
  by (simp add: Linear_forward_def) (simp add: Linear_def)

lemma count_module_eq:
  "count_module =
     \<lparr>latent_dim = 1, module_n_mix_components = 1,
      encoder = \<lparr>n_mix_components = 1, feat_types = [(''count'', None, None)], encoded_input_size = 1,
                 mixture_model = Linear 1 1 zero_parameters, hidden = [],
                 mean = Linear 2 1 zero_parameters, var = Linear 2 1 zero_parameters,
                 p_mean = Linear 1 1 zero_parameters, p_var = Linear 1 1 zero_parameters\<rparr>,
      decoder = \<lparr>dec_feat_types = [(''count'', None, None)], dec_n_mix_components = 1, dec_hidden = [],
                 decoding_models = [PoissonDecoder (''count'', None, None) (Linear 2 1 zero_parameters)]\<rparr>\<rparr>"
  by (simp add: count_module_def HIVAEModule_init_def HIEncoder_init_def HIDecoder_init_def
      AVAILABLE_TYPES_def get_encoded_input_size_def bind_err_simps hidden_layers_def
      VarDecoder_init_def Let_def enumerate_eq_zip numeral_2_eq_2)

lemma softmax_single [simp]: "softmax [x] = [1]"
  by (simp add: softmax_def)

lemma softmax_zeros: "softmax [0, 0] = [1 / 2, 1 / 2]"
  by (simp add: softmax_def)

lemma count_normalize:
  assumes "length (running_mean bn0) = 1" and "length (running_var bn0) = 1"
  shows "\<exists>bn'. normalize [(''count'', None, None)] bn0 [[a], [b]]
     = Inr (([[log_transform (zero_fill a)], [log_transform (zero_fill b)]], [[a \<noteq> None], [b \<noteq> None]]),
           [[Some (log_transform (zero_fill a))], [Some (log_transform (zero_fill b))]], bn')
     \<and> length (running_mean bn') = 1 \<and> length (running_var bn') = 1"
  using assms
  by (simp add: normalize_def real_batch_norm_def BatchNorm1d_forward_def batch_norm_reset_hook_def
      Let_def bind_err_simps)

lemma count_categorical_encode:
  "categorical_encode [(''count'', None, None)] [[x], [y]] = Inr [[x], [y]]"
  by (simp add: categorical_encode_def encode_feature_def select_column_def column_def cat_dim1_def
      bind_err_simps)

lemma one_hot_zeros: "one_hot [0, 0] (- 1) = Inr [[1], [1]]"
  by (simp add: one_hot_def one_hot_row_def)

lemma count_encoder_forward:
  assumes "length (running_mean bn0) = 1" and "length (running_var bn0) = 1"
  shows "\<exists>bn'. HIEncoder_forward (encoder count_module) bn0 (\<lambda>i c. 0) [[a], [b]]
     = Inr (([[0], [0]], [[sqrt (softplus 0)], [sqrt (softplus 0)]], [[1], [1]], [[a \<noteq> None], [b \<noteq> None]]),
            [[Some (log_transform (zero_fill a))], [Some (log_transform (zero_fill b))]], bn')
     \<and> length (running_mean bn') = 1 \<and> length (running_var bn') = 1"
proof -
  from count_normalize[OF assms, of a b] obtain bn' where
    N: "normalize [(''count'', None, None)] bn0 [[a], [b]]
     = Inr (([[log_transform (zero_fill a)], [log_transform (zero_fill b)]], [[a \<noteq> None], [b \<noteq> None]]),
           [[Some (log_transform (zero_fill a))], [Some (log_transform (zero_fill b))]], bn')"
    and len: "length (running_mean bn') = 1" "length (running_var bn') = 1" by blast
  have M: "HIEncoder_mix_component_dists (encoder count_module) bn0 (\<lambda>i c. 0) [[a], [b]]
     = Inr (([[log_transform (zero_fill a)], [log_transform (zero_fill b)]], [[1], [1]], [[a \<noteq> None], [b \<noteq> None]]),
           [[Some (log_transform (zero_fill a))], [Some (log_transform (zero_fill b))]], bn')"
    by (simp add: HIEncoder_mix_component_dists_def count_module_eq N bind_err_simps count_categorical_encode
        sample_mix_components_def zero_Linear_forward gumbel_softmax_def enumerate_eq_zip)
  have H: "HIEncoder_heads (encoder count_module) [[log_transform (zero_fill a)], [log_transform (zero_fill b)]] [[1], [1]]
     = Inr ([[0], [0]], [[sqrt (softplus 0)], [sqrt (softplus 0)]])"
    by (simp add: HIEncoder_heads_def count_module_eq argmax_dim1_def bind_err_simps one_hot_zeros
        cat_dim1_def zero_Linear_forward)
  show ?thesis using len by (simp add: HIEncoder_forward_def M H bind_err_simps)
qed

lemma count_forward_reconstruction_input:
  assumes "length (running_mean bn0) = 1" and "length (running_var bn0) = 1"
  shows "\<exists>bn2. forward_reconstruction_input count_module bn0 (\<lambda>i c. 0) (\<lambda>i k. 0) [[a], [b]]
     = Inr (([[0], [0]], [[sqrt (softplus 0)], [sqrt (softplus 0)]], [[1], [1]], [[a \<noteq> None], [b \<noteq> None]]),
            ([[0], [0]], [[1], [1]],
             [[log_transform (log_transform (zero_fill a))], [log_transform (log_transform (zero_fill b))]]),
            [[Some (log_transform (log_transform (zero_fill a)))],
             [Some (log_transform (log_transform (zero_fill b)))]], bn2)"
proof -
  from count_encoder_forward[OF assms, of a b] obtain bn1 where
    E: "HIEncoder_forward (encoder count_module) bn0 (\<lambda>i c. 0) [[a], [b]]
     = Inr (([[0], [0]], [[sqrt (softplus 0)], [sqrt (softplus 0)]], [[1], [1]], [[a \<noteq> None], [b \<noteq> None]]),
            [[Some (log_transform (zero_fill a))], [Some (log_transform (zero_fill b))]], bn1)"
    and len: "length (running_mean bn1) = 1" "length (running_var bn1) = 1" by blast
  from count_normalize[OF len, of "Some (log_transform (zero_fill a))" "Some (log_transform (zero_fill b))"]
  obtain bn2 where
    N: "normalize [(''count'', None, None)] bn1 [[Some (log_transform (zero_fill a))], [Some (log_transform (zero_fill b))]]
     = Inr (([[log_transform (log_transform (zero_fill a))], [log_transform (log_transform (zero_fill b))]],
             [[True], [True]]),
           [[Some (log_transform (log_transform (zero_fill a)))],
            [Some (log_transform (log_transform (zero_fill b)))]], bn2)"
    by (auto simp: zero_fill_def)
  have fts: "feat_types (encoder count_module) = [(''count'', None, None)]"
    by (simp add: count_module_eq)
  show ?thesis
    by (rule exI[of _ bn2])
       (simp add: forward_reconstruction_input_def E bind_err_simps argmax_dim1_def one_hot_zeros fts N
          enumerate_eq_zip)
qed

lemma count_reconstruction_error:
  "\<exists>s. HIDecoder_reconstruction_error (decoder count_module) bn2 [[x], [y]] [[0], [0]] [[1], [1]] [[oa], [ob]]
     = Inr [if oa then s else 0, if ob then s else 0]"
  by (simp add: HIDecoder_reconstruction_error_def count_module_eq bind_err_simps cat_dim1_def
      select_column_def column_def Poisson_reconstruction_error_def zero_Linear_forward broadcast2_def
      mean_tensor_def assign_column_def mask_unobserved_def)

lemma count_forward:
  assumes "length (running_mean bn0) = 1" and "length (running_var bn0) = 1"
  shows "\<exists>r ca bn2. HIVAEModule_forward count_module bn0 (\<lambda>i c. 0) (\<lambda>i k. 0) dt [[Some 3], [None]] 1 ''mode''
           = Inr (r, ca, bn2)"
proof -
  from count_forward_reconstruction_input[OF assms, of "Some 3" None] obtain bn2 where
    F: "forward_reconstruction_input count_module bn0 (\<lambda>i c. 0) (\<lambda>i k. 0) [[Some 3], [None]]
     = Inr (([[0], [0]], [[sqrt (softplus 0)], [sqrt (softplus 0)]], [[1], [1]], [[True], [False]]),
            ([[0], [0]], [[1], [1]],
             [[log_transform (log_transform 3)], [log_transform (log_transform 0)]]),
            [[Some (log_transform (log_transform 3))],
             [Some (log_transform (log_transform 0))]], bn2)" by (auto simp: zero_fill_def)
  from count_reconstruction_error[of bn2 _ _ True False] obtain s where
    D: "HIDecoder_reconstruction_error (decoder count_module) bn2
          [[log_transform (log_transform 3)], [log_transform (log_transform 0)]]
          [[0], [0]] [[1], [1]] [[True], [False]]
        = Inr [s, 0]" by auto
  have P: "p_mean (encoder count_module) = Linear 1 1 zero_parameters"
          "p_var (encoder count_module) = Linear 1 1 zero_parameters"
    by (simp_all add: count_module_eq)
  show ?thesis
    unfolding HIVAEModule_forward_def
    by (simp add: F D P bind_err_simps zero_Linear_forward argmax_dim1_def cross_entropy_def
        broadcast2_def mean_tensor_def latent_kl_def Let_def)
qed

lemma two_component_init:
  "HIEncoder_init [] 1 2 [(''count'', None, None)] (\<lambda>name l. zero_parameters)
     = Inr (two_component_encoder, BatchNorm1d 1)"
  by (simp add: two_component_encoder_def HIEncoder_init_def AVAILABLE_TYPES_def get_encoded_input_size_def
      bind_err_simps Let_def)

lemma two_component_fields:
  "feat_types two_component_encoder = [(''count'', None, None)]"
  "mixture_model two_component_encoder = Linear 1 2 zero_parameters"
  using HIEncoder_init_Inr[OF two_component_init]
  by (simp_all add: two_component_encoder_def HIEncoder_init_def AVAILABLE_TYPES_def get_encoded_input_size_def
      bind_err_simps Let_def)

lemma two_component_dists:
  assumes "length (running_mean bn0) = 1" and "length (running_var bn0) = 1"
  shows "\<exists>bn'. HIEncoder_mix_component_dists two_component_encoder bn0 (\<lambda>i c. 0) [[Some 3], [None]]
     = Inr (([[log_transform 3], [log_transform 0]], [[1 / 2, 1 / 2], [1 / 2, 1 / 2]], [[True], [False]]),
            [[Some (log_transform 3)], [Some (log_transform 0)]], bn')"
proof -
  from count_normalize[OF assms, of "Some 3" None] obtain bn' where
    N: "normalize [(''count'', None, None)] bn0 [[Some 3], [None]]
     = Inr (([[log_transform 3], [log_transform 0]], [[True], [False]]),
           [[Some (log_transform 3)], [Some (log_transform 0)]], bn')"
    by (auto simp: zero_fill_def)
  show ?thesis
    by (rule exI[of _ bn'])
       (simp add: HIEncoder_mix_component_dists_def two_component_fields N bind_err_simps
          count_categorical_encode sample_mix_components_def zero_Linear_forward gumbel_softmax_def
          enumerate_eq_zip numeral_2_eq_2 softmax_zeros[unfolded numeral_2_eq_2])
qed

lemma categorical_decoder_eq:
  "categorical_decoder =
     \<lparr>dec_feat_types = [(''categorical'', None, Some 1)], dec_n_mix_components = 1, dec_hidden = [],
      decoding_models = [CategoricalDecoder (''categorical'', None, Some 1) (Linear 2 2 biased_parameters)]\<rparr>"
  by (simp add: categorical_decoder_def HIDecoder_init_def VarDecoder_init_def int_of_def out_dim_of_def
      bind_err_simps hidden_layers_def Let_def enumerate_eq_zip numeral_2_eq_2)

lemma biased_Linear_forward:
  "Linear_forward (Linear 2 2 biased_parameters) [[a, b], [c, d]] = Inr [[0, 1], [0, 1]]"
  by (simp add: Linear_forward_def Linear_row_def Linear_def biased_parameters_def upt_rec)

lemma categorical_error:
  assumes "t0 \<in> {0, 1}" and "t1 \<in> {0, 1}"
  shows "Categorical_reconstruction_error (Linear 2 2 biased_parameters) [real t0, real t1] [[a, b], [c, d]]
     = Inr (Scalar (- ((ln (sum_list (map exp (softmax [0, 1]))) - softmax [0, 1] ! t0
                        + (ln (sum_list (map exp (softmax [0, 1]))) - softmax [0, 1] ! t1)) / 2)))"
  using assms
  by (auto simp add: Categorical_reconstruction_error_def biased_Linear_forward bind_err_simps
      cross_entropy_def long_def mean_list_def)

lemma categorical_decoder_error:
  assumes "t0 \<in> {0, 1}" and "t1 \<in> {0, 1}"
  shows "HIDecoder_reconstruction_error categorical_decoder bn [[real t0], [real t1]] [[0], [0]] [[1], [1]]
           [[False], [True]]
         = Inr [0, - ((ln (sum_list (map exp (softmax [0, 1]))) - softmax [0, 1] ! t0
                        + (ln (sum_list (map exp (softmax [0, 1]))) - softmax [0, 1] ! t1)) / 2)]"
  by (simp add: HIDecoder_reconstruction_error_def categorical_decoder_eq bind_err_simps cat_dim1_def
      select_column_def column_def categorical_error[OF assms] assign_column_def mask_unobserved_def)

lemma softmax_01_differ: "softmax [0, 1] ! 0 \<noteq> softmax [0, 1] ! 1"
proof -
  have "0 < 1 + exp (1::real)" by (simp add: add_pos_pos)
  then show ?thesis by (simp add: softmax_def)
qed

lemma log_transform_3_nonzero: "log_transform 3 \<noteq> 0"
  by (simp add: log_transform_def relu_def)

section \<open>C4: which columns the batch normalisation reaches\<close>

text \<open>
  C4 as stated fails.  A positive_real column does not leave \<^verbatim>\<open>normalize\<close> with its
  log transform only: in a fresh layer (training mode) the batch with the value 3 in both
  rows leaves as 0 and 0, the batch-normalised values, while the log transform of 3 is
  \<open>ln (3 + 1e-8)\<close>, which is not 0.
\<close>

theorem normalize_positive_real_counterexample:
  "map_sum id (\<lambda>r. fst (fst r))
     (normalize [(''positive_real'', None, None)] (BatchNorm1d 1) [[Some 3], [Some 3]]) = Inr [[0], [0]]
   \<and> log_transform (zero_fill (Some 3)) \<noteq> 0"
  using log_transform_3_nonzero by (simp add: normalize_eval)

text \<open>
  C4 (amended).  \<^verbatim>\<open>normalize\<close> restores the columns whose type is not in
  \<open>(real, positive_real)\<close>, so the running batch normalisation reaches the real and the
  positive_real columns.  For every input on which \<^verbatim>\<open>normalize\<close> returns, every row
  \<open>i\<close> and every column \<open>j\<close>: the zero-filled and log-transformed value is
  \<open>log_transform\<close> of the zero-filled cell for positive_real and count and the zero-filled
  cell otherwise; a count, categorical or ordinal column leaves with exactly that value,
  and a real or positive_real column leaves with that value batch-normalised.
\<close>

theorem normalize_batch_norm_columns:
  assumes "normalize fts bn X = Inr ((normed, observed_mask), after, bn')"
    and "i < length X" and "j < length fts"
  shows "logged_input fts X ! i ! j =
           (if fst (fts ! j) \<in> {''positive_real'', ''count''} then log_transform (zero_fill (X ! i ! j))
            else zero_fill (X ! i ! j))
       \<and> normed ! i ! j =
           (if fst (fts ! j) \<in> {''real'', ''positive_real''}
            then batch_normed bn (column (logged_input fts X) j) (logged_input fts X ! i ! j)
            else logged_input fts X ! i ! j)"
  using assms by (rule normalize_cell)

text \<open>
  A positive_real and a count column: the first leaves batch-normalised (0, both rows
  being equal), the second with its log transform.
\<close>

theorem normalize_batch_norm_columns_witness:
  "\<exists>normed observed_mask after bn'.
     normalize [(''positive_real'', None, None), (''count'', None, None)] (BatchNorm1d 2)
       [[Some 2, Some 3], [Some 2, None]] = Inr ((normed, observed_mask), after, bn')
     \<and> normed ! 0 ! 0 = 0 \<and> normed ! 0 ! 1 = log_transform 3"
proof -
  let ?fts = "[(''positive_real'', None, None), (''count'', None, None)]"
  let ?X = "[[Some 2, Some 3], [Some 2, None]]"
  obtain normed observed_mask after bn'
    where N: "normalize ?fts (BatchNorm1d 2) ?X = Inr ((normed, observed_mask), after, bn')"
    by (simp add: normalize_eval upt_rec)
  have L: "logged_input ?fts ?X = [[log_transform 2, log_transform 3], [log_transform 2, log_transform 0]]"
    by (simp add: logged_input_def zero_fill_def)
  have "normed ! 0 ! 0 = 0"
    using normalize_batch_norm_columns[OF N, of 0 0]
    by (simp add: L batch_normed_def BatchNorm1d_def column_def mean_list_def)
  moreover have "normed ! 0 ! 1 = log_transform 3"
    using normalize_batch_norm_columns[OF N, of 0 1] by (simp add: L)
  ultimately show ?thesis using N by blast
qed

section \<open>C3: the life cycle of the running statistics\<close>

text \<open>
  C3 as stated fails.  The statistics are not reset only when a training run begins, and
  they do not accumulate over the batches of a run: after a first training batch they are
  mean 1.5, variance 5.9 and count 1, and after a second training batch of zeros they are
  mean 0, variance 0.9 and count 1, as after a first batch, with nothing left of the batch
  before.
\<close>

theorem running_statistics_counterexample:
  "map_sum id (\<lambda>r. running_stats (snd (snd r)))
     (normalize [(''real'', None, None)] (BatchNorm1d 1) [[Some 10], [Some 20]])
     = Inr ([3 / 2], [59 / 10], 1)
   \<and> map_sum id (\<lambda>r. running_stats (snd (snd r)))
       (bind_err (normalize [(''real'', None, None)] (BatchNorm1d 1) [[Some 10], [Some 20]])
          (\<lambda>r. normalize [(''real'', None, None)] (snd (snd r)) [[Some 0], [Some 0]]))
     = Inr ([0], [9 / 10], 1)"
  by (simp add: normalize_eval running_stats_def)

text \<open>
  C3 (amended).  The hook resets the running statistics before every forward call of the
  batch-norm layer, that is in every call of \<^verbatim>\<open>normalize\<close>, in training and in
  evaluation mode.  So after a call of \<^verbatim>\<open>normalize\<close> on a batch of at least one row
  they hold that batch's contribution alone, whatever they held before: in training mode
  \<open>momentum\<close> times the batch mean, \<open>1 - momentum\<close> plus \<open>momentum\<close> times the unbiased
  batch variance, and the count 1; in evaluation mode 0, 1 and the count 0.  The decoders
  take the layer as an argument and only read it: the layer that
  \<^verbatim>\<open>HIVAEModule.forward\<close> leaves is the one its second call of \<^verbatim>\<open>normalize\<close> left.
\<close>

theorem normalize_resets_running_statistics:
  "(normalize fts bn X = Inr ((normed, observed_mask), after, bn') \<longrightarrow> X \<noteq> [] \<longrightarrow>
      running_stats bn' =
        (if training bn
         then (map (\<lambda>j. momentum bn * mean_list (column (logged_input fts X) j)) [0..<length fts],
               map (\<lambda>j. (1 - momentum bn)
                         + momentum bn * (sq_dev (column (logged_input fts X) j) / (real (length X) - 1)))
                 [0..<length fts],
               1)
         else (replicate (length fts) 0, replicate (length fts) 1, 0)))
   \<and> (HIVAEModule_forward m bn0 gumbels noise dt X0 w reconstruction_mode
         = Inr ((reconstr_error, kl, elbo), caller_after, bn_f) \<longrightarrow>
       (\<exists>enc_out dec_in after0.
          forward_reconstruction_input m bn0 gumbels noise X0 = Inr (enc_out, dec_in, after0, bn_f)))"
proof (intro conjI impI)
  assume "normalize fts bn X = Inr ((normed, observed_mask), after, bn')" and "X \<noteq> []"
  then show "running_stats bn' =
        (if training bn
         then (map (\<lambda>j. momentum bn * mean_list (column (logged_input fts X) j)) [0..<length fts],
               map (\<lambda>j. (1 - momentum bn)
                         + momentum bn * (sq_dev (column (logged_input fts X) j) / (real (length X) - 1)))
                 [0..<length fts],
               1)
         else (replicate (length fts) 0, replicate (length fts) 1, 0))"
    by (rule normalize_running_stats)
next
  assume "HIVAEModule_forward m bn0 gumbels noise dt X0 w reconstruction_mode
         = Inr ((reconstr_error, kl, elbo), caller_after, bn_f)"
  from HIVAEModule_forward_Inr[OF this]
  show "\<exists>enc_out dec_in after0.
          forward_reconstruction_input m bn0 gumbels noise X0 = Inr (enc_out, dec_in, after0, bn_f)"
    by blast
qed

text \<open>
  A layer that holds the statistics of an earlier batch (mean 1.5, variance 5.9, count 1)
  holds mean 0, variance 0.9 and count 1 after a training batch of zeros.
\<close>

theorem normalize_resets_running_statistics_witness:
  "\<exists>normed observed_mask after bn'.
     normalize [(''real'', None, None)]
       ((BatchNorm1d 1)\<lparr>running_mean := [3 / 2], running_var := [59 / 10], num_batches_tracked := 1\<rparr>)
       [[Some 0], [Some 0]] = Inr ((normed, observed_mask), after, bn')
     \<and> running_stats bn' = ([0], [9 / 10], 1)"
proof -
  let ?bn = "(BatchNorm1d 1)\<lparr>running_mean := [3 / 2], running_var := [59 / 10], num_batches_tracked := 1\<rparr>"
  obtain normed observed_mask after bn'
    where N: "normalize [(''real'', None, None)] ?bn [[Some 0], [Some 0]] = Inr ((normed, observed_mask), after, bn')"
    by (simp add: normalize_eval)
  have "running_stats bn' = ([0], [9 / 10], 1)"
    using normalize_resets_running_statistics[of "[(''real'', None, None)]" ?bn "[[Some 0], [Some 0]]"
             normed observed_mask after bn'] N
    by (simp add: logged_input_def zero_fill_def BatchNorm1d_def column_def mean_list_def sq_dev_def)
  then show ?thesis using N by blast
qed

section \<open>C9: the input tensor after \<^verbatim>\<open>forward\<close>\<close>

text \<open>
  C9 as stated fails.  \<^verbatim>\<open>HIVAEModule.forward\<close> can leave the caller's tensor as it was:
  line 627 rebinds \<^verbatim>\<open>input_tensor\<close> to \<^verbatim>\<open>input_tensor.float()\<close>, which is a copy
  unless the tensor already holds 32-bit floats.  On the model with one count feature, a
  64-bit batch with the value 3 and a missing cell is still the value 3 and a missing cell
  after the call.  (And what \<^verbatim>\<open>normalize\<close> writes into a batch of real columns without
  a missing cell is what the batch held.)
\<close>

theorem forward_float64_counterexample:
  "map_sum id (\<lambda>r. fst (snd r))
     (HIVAEModule_forward count_module (BatchNorm1d 1) (\<lambda>i c. 0) (\<lambda>i k. 0) Float64 [[Some 3], [None]] 1 ''mode'')
     = Inr [[Some 3], [None]]
   \<and> after_normalize [(''real'', None, None)] [[Some 1], [Some 2]] = [[Some 1], [Some 2]]"
proof -
  have "length (running_mean (BatchNorm1d 1)) = 1" "length (running_var (BatchNorm1d 1)) = 1"
    by (simp_all add: BatchNorm1d_def)
  from count_forward[OF this, of Float64] obtain reconstr_error kl elbo ca bn2 where
    R: "HIVAEModule_forward count_module (BatchNorm1d 1) (\<lambda>i c. 0) (\<lambda>i k. 0) Float64 [[Some 3], [None]] 1 ''mode''
           = Inr ((reconstr_error, kl, elbo), ca, bn2)" by (metis prod_cases3)
  from HIVAEModule_forward_Inr[OF R] have "ca = [[Some 3], [None]]" by auto
  with R have "map_sum id (\<lambda>r. fst (snd r))
     (HIVAEModule_forward count_module (BatchNorm1d 1) (\<lambda>i c. 0) (\<lambda>i k. 0) Float64 [[Some 3], [None]] 1 ''mode'')
     = Inr [[Some 3], [None]]" by simp
  moreover have "after_normalize [(''real'', None, None)] [[Some 1], [Some 2]] = [[Some 1], [Some 2]]"
    by (simp add: after_normalize_def logged_input_def zero_fill_def)
  ultimately show ?thesis by simp
qed

text \<open>
  C9 (amended).  Whenever \<^verbatim>\<open>HIVAEModule.forward\<close> returns: its first call of
  \<^verbatim>\<open>normalize\<close> (inside the encoder) has left the tensor it works on zero-filled and
  log-transformed in the positive_real and count columns; its second call of
  \<^verbatim>\<open>normalize\<close> has run on that tensor, has transformed it once more, and has produced
  the tensor that \<^verbatim>\<open>decoder.reconstruction_error\<close> receives.  That tensor is the caller's
  own exactly when the caller passed 32-bit floats: such a caller finds the
  twice-transformed content in it, which differs from what was passed whenever a cell was
  missing, and a caller that passed another type finds its tensor unchanged.  In either
  case, in the tensor given to the decoders every count cell is the log transform of the
  log transform of the zero-filled input cell, and every positive_real cell is that value
  batch-normalised.
\<close>

theorem forward_log_transform_twice:
  assumes "HIVAEModule_forward m bn gumbels noise dt X w reconstruction_mode
             = Inr ((reconstr_error, kl, elbo), caller_after, bn_f)"
  shows "\<exists>mean_t std_t dists observed_mask latent mix normed normed1 unused bn1.
           normalize (feat_types (encoder m)) bn X
             = Inr ((normed1, observed_mask), after_normalize (feat_types (encoder m)) X, bn1)
         \<and> normalize (feat_types (encoder m)) bn1 (after_normalize (feat_types (encoder m)) X)
             = Inr ((normed, unused),
                    after_normalize (feat_types (encoder m)) (after_normalize (feat_types (encoder m)) X), bn_f)
         \<and> forward_reconstruction_input m bn gumbels noise X
             = Inr ((mean_t, std_t, dists, observed_mask), (latent, mix, normed),
                    after_normalize (feat_types (encoder m)) (after_normalize (feat_types (encoder m)) X), bn_f)
         \<and> HIDecoder_reconstruction_error (decoder m) bn_f normed latent mix observed_mask = Inr reconstr_error
         \<and> (dt = Float32 \<longrightarrow>
              caller_after
                = after_normalize (feat_types (encoder m)) (after_normalize (feat_types (encoder m)) X))
         \<and> (dt = Float32 \<longrightarrow> (\<exists>row\<in>set X. None \<in> set row) \<longrightarrow> caller_after \<noteq> X)
         \<and> (dt \<noteq> Float32 \<longrightarrow> caller_after = X)
         \<and> (\<forall>i<length X. \<forall>j<length (feat_types (encoder m)).
               (fst (feat_types (encoder m) ! j) = ''count'' \<longrightarrow>
                  normed ! i ! j = log_transform (log_transform (zero_fill (X ! i ! j))))
             \<and> (fst (feat_types (encoder m) ! j) = ''positive_real'' \<longrightarrow>
                  normed ! i ! j =
                    batch_normed bn
                      (column (logged_input (feat_types (encoder m))
                                 (after_normalize (feat_types (encoder m)) X)) j)
                      (log_transform (log_transform (zero_fill (X ! i ! j))))))"
proof -
  let ?fts = "feat_types (encoder m)"
  let ?L1 = "logged_input ?fts X"
  let ?A1 = "map (map Some) ?L1"
  let ?L2 = "logged_input ?fts ?A1"
  from HIVAEModule_forward_Inr[OF assms] obtain mean_t std_t dists observed_mask latent mix normed after
    where F: "forward_reconstruction_input m bn gumbels noise X
                = Inr ((mean_t, std_t, dists, observed_mask), (latent, mix, normed), after, bn_f)"
      and D: "HIDecoder_reconstruction_error (decoder m) bn_f normed latent mix observed_mask = Inr reconstr_error"
      and C: "caller_after = (if dt = Float32 then after else X)" by blast
  from forward_reconstruction_input_Inr[OF F] obtain after1 bn1 unused
    where E: "HIEncoder_forward (encoder m) bn gumbels X = Inr ((mean_t, std_t, dists, observed_mask), after1, bn1)"
      and N2: "normalize ?fts bn1 after1 = Inr ((normed, unused), after, bn_f)" by blast
  from HIEncoder_forward_Inr[OF E] obtain encoded
    where M: "HIEncoder_mix_component_dists (encoder m) bn gumbels X
                = Inr ((encoded, dists, observed_mask), after1, bn1)" by blast
  from HIEncoder_mix_component_dists_Inr[OF M] obtain normed1
    where N1: "normalize ?fts bn X = Inr ((normed1, observed_mask), after1, bn1)" by blast
  note n1 = normalize_Inr[OF N1]
  note n2 = normalize_Inr[OF N2]
  have a1: "after1 = ?A1" by (rule n1(4))
  have a2: "after = map (map Some) ?L2" using n2(4) a1 by simp
  from n1(5) obtain out1 where "real_batch_norm bn ?L1 = Inr (out1, bn1)" by blast
  from real_batch_norm_Inr[OF this] have same: "training bn1 = training bn" "eps bn1 = eps bn" by simp_all
  have cells: "\<forall>i<length X. \<forall>j<length ?fts.
               (fst (?fts ! j) = ''count'' \<longrightarrow>
                  normed ! i ! j = log_transform (log_transform (zero_fill (X ! i ! j))))
             \<and> (fst (?fts ! j) = ''positive_real'' \<longrightarrow>
                  normed ! i ! j = batch_normed bn (column ?L2 j)
                      (log_transform (log_transform (zero_fill (X ! i ! j)))))"
  proof (intro allI impI)
    fix i j assume i: "i < length X" and j: "j < length ?fts"
    have i': "i < length after1" using i a1 by (simp add: logged_input_length)
    have rowlen: "length (X ! i) = length ?fts" using n1(2) i by simp
    note c1 = normalize_cell[OF N1 i j]
    note c2 = normalize_cell[OF N2 i' j]
    have z: "zero_fill (after1 ! i ! j) = ?L1 ! i ! j"
      unfolding a1 by (rule logged_input_Some[OF n1(2) i j])
    show "(fst (?fts ! j) = ''count'' \<longrightarrow>
                  normed ! i ! j = log_transform (log_transform (zero_fill (X ! i ! j))))
             \<and> (fst (?fts ! j) = ''positive_real'' \<longrightarrow>
                  normed ! i ! j = batch_normed bn (column ?L2 j)
                      (log_transform (log_transform (zero_fill (X ! i ! j)))))"
      using c1 c2 z a1 batch_normed_cong[OF same] by auto
  qed
  have changed: "dt = Float32 \<longrightarrow> (\<exists>row\<in>set X. None \<in> set row) \<longrightarrow> caller_after \<noteq> X"
  proof (intro impI notI)
    assume "dt = Float32" and "\<exists>row\<in>set X. None \<in> set row" and "caller_after = X"
    then have "X = map (map Some) ?L2" using C a2 by simp
    then have "\<forall>row\<in>set X. None \<notin> set row" by (metis (no_types, lifting) imageE list.set_map option.distinct(1))
    with \<open>\<exists>row\<in>set X. None \<in> set row\<close> show False by blast
  qed
  have eqs: "normalize ?fts bn X = Inr ((normed1, observed_mask), ?A1, bn1)"
    "normalize ?fts bn1 ?A1 = Inr ((normed, unused), map (map Some) ?L2, bn_f)"
    "forward_reconstruction_input m bn gumbels noise X
       = Inr ((mean_t, std_t, dists, observed_mask), (latent, mix, normed), map (map Some) ?L2, bn_f)"
    "dt = Float32 \<longrightarrow> caller_after = map (map Some) ?L2"
    "dt \<noteq> Float32 \<longrightarrow> caller_after = X"
    using N1 N2 F C a1 a2 by simp_all
  show ?thesis
    unfolding after_normalize_def
    using eqs D changed cells by blast
qed

text \<open>
  The model with one count feature, on a batch with the value 3 and a missing cell: the
  caller's tensor ends as the twice-transformed 3 and the twice-transformed 0.
\<close>

theorem forward_log_transform_twice_witness:
  "\<exists>r bn2. HIVAEModule_forward count_module (BatchNorm1d 1) (\<lambda>i c. 0) (\<lambda>i k. 0) Float32 [[Some 3], [None]] 1 ''mode''
     = Inr (r, [[Some (log_transform (log_transform 3))], [Some (log_transform (log_transform 0))]], bn2)"
proof -
  have "length (running_mean (BatchNorm1d 1)) = 1" "length (running_var (BatchNorm1d 1)) = 1"
    by (simp_all add: BatchNorm1d_def)
  from count_forward[OF this, of Float32] obtain reconstr_error kl elbo ca bn2 where
    R: "HIVAEModule_forward count_module (BatchNorm1d 1) (\<lambda>i c. 0) (\<lambda>i k. 0) Float32 [[Some 3], [None]] 1 ''mode''
           = Inr ((reconstr_error, kl, elbo), ca, bn2)" by (metis prod_cases3)
  have fts: "feat_types (encoder count_module) = [(''count'', None, None)]"
    by (simp add: count_module_eq)
  have "ca = [[Some (log_transform (log_transform 3))], [Some (log_transform (log_transform 0))]]"
    using forward_log_transform_twice[OF R] by (auto simp add: fts after_normalize_def logged_input_def zero_fill_def)
  with R show ?thesis by blast
qed

section \<open>C10: the width of the hard mixture one-hot\<close>

text \<open>
  C10.  For every encoder that \<^verbatim>\<open>HIEncoder.__init__\<close> builds and every batch on which
  the encoder gets as far as the mixture distributions: if no sample's arg-max is the last
  mixture component, then \<^verbatim>\<open>HIEncoder.forward\<close> fails; on a batch of at least one row
  it fails with the shape error of a linear layer, since the one-hot is narrower than
  \<open>n_mix_components\<close> and \<open>mean\<close> expects the hidden width plus \<open>n_mix_components\<close>; and
  with it fails \<^verbatim>\<open>HIVAEModule.forward\<close> of every model with that encoder.
\<close>

theorem one_hot_width_mismatch:
  assumes init: "HIEncoder_init hidden_sizes ld n_mix fts \<theta> = Inr (enc, bn0)"
    and dists: "HIEncoder_mix_component_dists enc bn gumbels X
                  = Inr ((encoded, mix_component_dists, observed_mask), after, bn')"
    and last: "\<forall>row\<in>set mix_component_dists. argmax row \<noteq> n_mix - 1"
  shows "(\<exists>e. HIEncoder_forward enc bn gumbels X = Inl e)
       \<and> (X \<noteq> [] \<longrightarrow>
            HIEncoder_forward enc bn gumbels X = Inl (RuntimeError ''mat1 and mat2 shapes cannot be multiplied''))
       \<and> (\<forall>m noise dt w reconstruction_mode.
            encoder m = enc \<longrightarrow>
            (\<exists>e. HIVAEModule_forward m bn gumbels noise dt X w reconstruction_mode = Inl e))"
proof -
  from HIEncoder_init_Inr[OF init] obtain size where
    mm: "mixture_model enc = Linear size n_mix (\<theta> ''mixture_model'' 0)"
    and hid: "hidden enc = hidden_layers (size # hidden_sizes) (\<theta> ''hidden'')"
    and mn: "mean enc = Linear (last (size # hidden_sizes) + n_mix) ld (\<theta> ''mean'' 0)" by blast
  from HIEncoder_mix_component_dists_Inr[OF dists] obtain normed where
    N: "normalize (feat_types enc) bn X = Inr ((normed, observed_mask), after, bn')"
    and CE: "categorical_encode (feat_types enc) normed = Inr encoded"
    and S: "sample_mix_components enc gumbels encoded = Inr mix_component_dists" by blast
  from S obtain logits where L: "Linear_forward (mixture_model enc) encoded = Inr logits"
    and D: "mix_component_dists = gumbel_softmax gumbels logits"
    by (auto simp: sample_mix_components_def bind_err_Inr_iff)
  note Ls = Linear_forward_Inr[OF L]
  have enc_w: "\<forall>x\<in>set encoded. length x = size" using Ls mm by (simp add: Linear_def)
  have d_len: "length mix_component_dists = length encoded"
    using D Ls gumbel_softmax_shape[of gumbels logits] by simp
  have d_w: "\<forall>row\<in>set mix_component_dists. length row = n_mix"
  proof
    fix row assume "row \<in> set mix_component_dists"
    then obtain i where i: "i < length logits" "row = gumbel_softmax gumbels logits ! i"
      using D gumbel_softmax_shape[of gumbels logits] by (auto simp: in_set_conv_nth)
    then have "length row = length (logits ! i)" using gumbel_softmax_shape[of gumbels logits] by simp
    moreover have "logits ! i \<in> set logits" using i(1) by simp
    ultimately show "length row = n_mix" using Ls mm by (simp add: Linear_def)
  qed
  have heads: "(\<exists>e. HIEncoder_heads enc encoded mix_component_dists = Inl e)
      \<and> (encoded \<noteq> [] \<longrightarrow> HIEncoder_heads enc encoded mix_component_dists
             = Inl (RuntimeError ''mat1 and mat2 shapes cannot be multiplied''))"
  proof (cases "mix_component_dists = []")
    case True
    then show ?thesis using d_len
      by (simp add: HIEncoder_heads_def argmax_dim1_def one_hot_def bind_err_simps)
  next
    case False
    then obtain row0 where row0: "row0 \<in> set mix_component_dists"
      by (cases mix_component_dists) auto
    have pos: "0 < n_mix"
    proof (rule ccontr)
      assume "\<not> 0 < n_mix"
      then have "n_mix = 0" by simp
      with d_w row0 have "row0 = []" by auto
      with last row0 \<open>n_mix = 0\<close> show False by force
    qed
    have nonempty: "\<forall>row\<in>set mix_component_dists. row \<noteq> []" using d_w pos by auto
    then have am: "argmax_dim1 mix_component_dists = Inr (map argmax mix_component_dists)"
      by (auto simp: argmax_dim1_def)
    have small: "\<forall>i\<in>set (map argmax mix_component_dists). Suc i < n_mix"
    proof
      fix i assume "i \<in> set (map argmax mix_component_dists)"
      then obtain row where row: "row \<in> set mix_component_dists" "i = argmax row" by auto
      with nonempty d_w have "i < n_mix" using argmax_less[of row] by auto
      moreover from row last have "i \<noteq> n_mix - 1" by auto
      ultimately show "Suc i < n_mix" by arith
    qed
    have "map argmax mix_component_dists \<noteq> []" using False by simp
    from one_hot_infer[OF this] obtain i where i: "i \<in> set (map argmax mix_component_dists)"
      and oh: "one_hot (map int (map argmax mix_component_dists)) (- 1)
                 = Inr (map (one_hot_row (Suc i)) (map int (map argmax mix_component_dists)))" by blast
    let ?mix = "map (one_hot_row (Suc i)) (map int (map argmax mix_component_dists))"
    from Sequential_hidden_layers[OF enc_w, of "\<theta> ''hidden''" 0 hidden_sizes] obtain h where
      h: "Sequential_forward (hidden enc) encoded = Inr h" "length h = length encoded"
         "\<forall>y\<in>set h. length y = last (size # hidden_sizes)"
      unfolding hid hidden_layers_def by blast
    have cat: "cat_dim1 h ?mix = Inr (map (\<lambda>(a, b). a @ b) (zip h ?mix))"
      using h(2) d_len by (simp add: cat_dim1_def)
    have hne: "h \<noteq> []" using h(2) d_len False by auto
    then obtain y ys where hy: "h = y # ys" by (cases h) auto
    obtain r rs where mr: "mix_component_dists = r # rs" using False by (cases mix_component_dists) auto
    have first: "y @ one_hot_row (Suc i) (int (argmax r)) \<in> set (map (\<lambda>(a, b). a @ b) (zip h ?mix))"
      unfolding hy mr by simp
    have "length (y @ one_hot_row (Suc i) (int (argmax r))) = last (size # hidden_sizes) + Suc i"
      using h(3) hy by (simp add: one_hot_row_length)
    moreover have "Suc i < n_mix" using small i by blast
    ultimately have "length (y @ one_hot_row (Suc i) (int (argmax r))) \<noteq> in_features (mean enc)"
      unfolding mn by (simp add: Linear_def)
    from Linear_forward_mismatch[OF first this]
    have "HIEncoder_heads enc encoded mix_component_dists
            = Inl (RuntimeError ''mat1 and mat2 shapes cannot be multiplied'')"
      unfolding HIEncoder_heads_def by (simp only: am oh h(1) cat bind_err_simps)
    then show ?thesis by simp
  qed
  have len_enc: "X \<noteq> [] \<longrightarrow> encoded \<noteq> []"
  proof
    assume "X \<noteq> []"
    have "length normed = length X"
    proof -
      from normalize_Inr(5)[OF N] obtain out where
        o: "real_batch_norm bn (logged_input (feat_types enc) X) = Inr (out, bn')"
        and n: "normed = map (\<lambda>(normed_row, row). map (\<lambda>(b, y, v). if b then v else y)
                        (zip (map (\<lambda>feat_type. feat_type \<notin> {''real'', ''positive_real''}) (map fst (feat_types enc)))
                             (zip normed_row row)))
                     (zip out (logged_input (feat_types enc) X))" by blast
      from real_batch_norm_Inr[OF o] have "length out = length X" by (simp add: logged_input_length)
      then show ?thesis unfolding n by (simp add: logged_input_length)
    qed
    moreover have "length encoded = length normed"
      using categorical_encode_from_length[of "feat_types enc" 0 normed "map (\<lambda>row. []) normed" encoded] CE
      by (simp add: categorical_encode_def)
    ultimately show "encoded \<noteq> []" using \<open>X \<noteq> []\<close> by auto
  qed
  have F: "(\<exists>e. HIEncoder_forward enc bn gumbels X = Inl e)
       \<and> (X \<noteq> [] \<longrightarrow>
            HIEncoder_forward enc bn gumbels X = Inl (RuntimeError ''mat1 and mat2 shapes cannot be multiplied''))"
    using heads len_enc by (auto simp: HIEncoder_forward_def dists bind_err_simps)
  then show ?thesis
    by (auto simp: HIVAEModule_forward_def forward_reconstruction_input_def bind_err_simps)
qed

text \<open>
  With two mixture components and equal scores for both, every arg-max is component 0,
  and the encoder fails on a well-formed batch.
\<close>

theorem one_hot_width_mismatch_witness:
  "HIEncoder_forward two_component_encoder (BatchNorm1d 1) (\<lambda>i c. 0) [[Some 3], [None]]
     = Inl (RuntimeError ''mat1 and mat2 shapes cannot be multiplied'')"
proof -
  have "length (running_mean (BatchNorm1d 1)) = 1" "length (running_var (BatchNorm1d 1)) = 1"
    by (simp_all add: BatchNorm1d_def)
  from two_component_dists[OF this] obtain bn' where
    D: "HIEncoder_mix_component_dists two_component_encoder (BatchNorm1d 1) (\<lambda>i c. 0) [[Some 3], [None]]
     = Inr (([[log_transform 3], [log_transform 0]], [[1 / 2, 1 / 2], [1 / 2, 1 / 2]], [[True], [False]]),
            [[Some (log_transform 3)], [Some (log_transform 0)]], bn')" by blast
  have "\<forall>row\<in>set [[1 / 2, 1 / 2], [1 / 2, 1 / 2 :: real]]. argmax row \<noteq> 2 - 1" by simp
  from one_hot_width_mismatch[OF two_component_init D this] show ?thesis by simp
qed

section \<open>C6: \<^verbatim>\<open>reconstruct\<close>\<close>

text \<open>
  C6 (the code departs from the claim).  \<^verbatim>\<open>HIVAE.reconstruct\<close> returns no
  reconstruction for any model, input and mode: either the encoder raises, or its four
  results are unpacked into three names and that raises.
\<close>

theorem HIVAE_reconstruct_raises:
  "HIVAE_reconstruct self bn gumbels decode X reconstruction_mode
     = Inl (ValueError ''too many values to unpack (expected 3)'')
   \<or> (\<exists>e. HIEncoder_forward (encoder (hivae_model self)) bn gumbels X = Inl e
          \<and> HIVAE_reconstruct self bn gumbels decode X reconstruction_mode = Inl e)"
proof (cases "HIEncoder_forward (encoder (hivae_model self)) bn gumbels X")
  case (Inl e)
  then show ?thesis
    by (simp add: HIVAE_reconstruct_def HIVAEModule_reconstruct_def bind_err_simps)
next
  case (Inr r)
  then show ?thesis
    by (cases r) (auto simp: HIVAE_reconstruct_def HIVAEModule_reconstruct_def bind_err_simps unpack3_def)
qed

text \<open>
  On the model with one count feature the encoder succeeds and the unpacking raises.
\<close>

theorem HIVAE_reconstruct_raises_witness:
  "HIVAE_reconstruct \<lparr>hivae_n_mix_components = 1, hivae_model = count_module\<rparr> (BatchNorm1d 1) (\<lambda>i c. 0)
      (\<lambda>unpacked reconstruction_mode. Inr []) [[Some 3], [None]] ''mode''
     = Inl (ValueError ''too many values to unpack (expected 3)'')"
proof -
  have "length (running_mean (BatchNorm1d 1)) = 1" "length (running_var (BatchNorm1d 1)) = 1"
    by (simp_all add: BatchNorm1d_def)
  from count_encoder_forward[OF this, of "Some 3" None] obtain r where
    "HIEncoder_forward (encoder count_module) (BatchNorm1d 1) (\<lambda>i c. 0) [[Some 3], [None]] = Inr r" by blast
  then show ?thesis
    using HIVAE_reconstruct_raises[of "\<lparr>hivae_n_mix_components = 1, hivae_model = count_module\<rparr>"
        "BatchNorm1d 1" "\<lambda>i c. 0" "\<lambda>unpacked reconstruction_mode. Inr []" "[[Some 3], [None]]" "''mode''"]
    by simp
qed

section \<open>C2: the shape of a decoder's reconstruction error\<close>

lemma Normal_reconstruction_error_shape:
  assumes "Normal_reconstruction_error encoder_sb mean_l var_l x h d = Inr r"
  shows "\<exists>v. r = Vector v \<and> length v = length h"
proof -
  from assms obtain mean0 var0 errs where
    m: "Linear_forward mean_l h = Inr mean0" and v: "Linear_forward var_l h = Inr var0"
    and e: "map_err (\<lambda>(mrow, srow).
              bind_err (broadcast2 (\<lambda>(m, s) x. normal_log_prob m s x) (zip mrow srow)
                          (map (\<lambda>x. x * sqrt (running_var encoder_sb ! d) + running_mean encoder_sb ! d) x))
                (\<lambda>lp. Inr (- sum_list lp)))
            (zip (map (map (\<lambda>m. m * sqrt (running_var encoder_sb ! d) + running_mean encoder_sb ! d)) mean0)
                 (map (map (\<lambda>v. sqrt (softplus v) * sqrt (running_var encoder_sb ! d))) var0)) = Inr errs"
    and r: "r = Vector errs"
    unfolding Normal_reconstruction_error_def Let_def
    by (auto simp: bind_err_Inr_iff split: if_splits)
  from map_err_length[OF e] Linear_forward_Inr[OF m] Linear_forward_Inr[OF v]
  have "length errs = length h" by simp
  with r show ?thesis by simp
qed

text \<open>
  C2 (the code departs from the claim).  Whenever they return, the Poisson, the
  categorical and the ordinal decoder return a zero-dimensional tensor, the mean over the
  batch, not one value per sample; only the normal and the log-normal decoder return one
  value per row of the hidden state.
\<close>

theorem reconstruction_error_shape:
  "(reconstruction_error encoder_sb (PoissonDecoder ft lambda_l) x h d = Inr r \<longrightarrow> (\<exists>s. r = Scalar s))
   \<and> (reconstruction_error encoder_sb (CategoricalDecoder ft linear_l) x h d = Inr r \<longrightarrow> (\<exists>s. r = Scalar s))
   \<and> (reconstruction_error encoder_sb (OrdinalDecoder ft thresholds_l region_l) x h d = Inr r
        \<longrightarrow> (\<exists>s. r = Scalar s))
   \<and> (reconstruction_error encoder_sb (NormalDecoder ft mean_l var_l) x h d = Inr r
        \<longrightarrow> (\<exists>v. r = Vector v \<and> length v = length h))
   \<and> (reconstruction_error encoder_sb (LogNormalDecoder ft mean_l var_l) x h d = Inr r
        \<longrightarrow> (\<exists>v. r = Vector v \<and> length v = length h))"
proof -
  have P: "Poisson_reconstruction_error lambda_l x h = Inr r \<longrightarrow> (\<exists>s. r = Scalar s)"
    unfolding Poisson_reconstruction_error_def Let_def by (auto simp: bind_err_Inr_iff)
  have C: "Categorical_reconstruction_error linear_l x h = Inr r \<longrightarrow> (\<exists>s. r = Scalar s)"
    unfolding Categorical_reconstruction_error_def by (auto simp: bind_err_Inr_iff)
  have O: "Ordinal_reconstruction_error ft thresholds_l region_l x h = Inr r \<longrightarrow> (\<exists>s. r = Scalar s)"
    unfolding Ordinal_reconstruction_error_def Let_def
    by (auto simp: bind_err_Inr_iff split: option.splits)
  show ?thesis using P C O Normal_reconstruction_error_shape[of encoder_sb mean_l var_l x h d r] by simp
qed

text \<open>
  The categorical decoder on a batch of two samples returns a single number.
\<close>

theorem reconstruction_error_shape_witness:
  "\<exists>s. reconstruction_error (BatchNorm1d 1)
          (CategoricalDecoder (''categorical'', None, Some 1) (Linear 2 2 biased_parameters))
          [0, 1] [[0, 1], [0, 1]] 0 = Inr (Scalar s)"
proof -
  have "\<exists>r. reconstruction_error (BatchNorm1d 1)
          (CategoricalDecoder (''categorical'', None, Some 1) (Linear 2 2 biased_parameters))
          [0, 1] [[0, 1], [0, 1]] 0 = Inr r"
    using categorical_error[of 0 1 0 1 0 1] by simp
  then obtain r where r: "reconstruction_error (BatchNorm1d 1)
          (CategoricalDecoder (''categorical'', None, Some 1) (Linear 2 2 biased_parameters))
          [0, 1] [[0, 1], [0, 1]] 0 = Inr r" by blast
  with reconstruction_error_shape[of "BatchNorm1d 1" "(''categorical'', None, Some 1)" _ "[0, 1]"
      "[[0, 1], [0, 1]]" 0 r "Linear 2 2 biased_parameters"]
  show ?thesis by auto
qed

section \<open>C1: unobserved cells and the reconstruction loss\<close>

text \<open>
  C1 (the code departs from the claim).  \<^verbatim>\<open>HIDecoder.reconstruction_error\<close> zeroes the
  entries of the unobserved cells, but the value in an unobserved cell still reaches the
  loss of the other samples: with one categorical feature, unobserved in the first sample
  and observed in the second, changing the first sample's cell from 0 to 1 changes the
  second sample's loss, because the decoder's error is a mean over the batch.
\<close>

theorem unobserved_cell_changes_loss:
  "\<exists>a b. HIDecoder_reconstruction_error categorical_decoder (BatchNorm1d 1) [[0], [1]] [[0], [0]] [[1], [1]]
             [[False], [True]] = Inr [0, a]
       \<and> HIDecoder_reconstruction_error categorical_decoder (BatchNorm1d 1) [[1], [1]] [[0], [0]] [[1], [1]]
             [[False], [True]] = Inr [0, b]
       \<and> a \<noteq> b"
  using categorical_decoder_error[of 0 1 "BatchNorm1d 1"] categorical_decoder_error[of 1 1 "BatchNorm1d 1"]
    softmax_01_differ
  by simp

end
